theory Spec2Isabelle
  imports Complex_Main "HOL-Library.Word"
begin

unbundle bit_operations_syntax

section \<open>Data model\<close>

text \<open>
  The pipeline of \<^verbatim>\<open>process_data.py\<close> moves pandas data frames through three stages:
  an adapter (\<^verbatim>\<open>clean_zillow_data\<close>, \<^verbatim>\<open>clean_redfin_data\<close>), the validator
  (\<^verbatim>\<open>validate_data\<close>) and the loader (\<^verbatim>\<open>load_listings\<close>).

  A cell of a frame is an option: \<open>None\<close> is the null of pandas (NaN, None, NaT).
  A finite float is the rational number it denotes; the comparisons of the validator are
  exact on them. A pandas Timestamp is the text that \<^verbatim>\<open>str\<close> gives for it, which is
  what the adapters interpolate into the hashed key.
\<close>

type_synonym timestamp = string

datatype error = KeyError | ValueError | StorageError

text \<open>
  One row of a listings frame: the twelve columns that both adapters select
  (\<^verbatim>\<open>columns = ['listing_id', 'date', 'region', ...]\<close>).
\<close>

record listing =
  listing_id :: "string option"
  date :: "timestamp option"
  region :: "string option"
  city :: "string option"
  property_type :: "string option"
  price :: "rat option"
  tax :: "rat option"
  sale_type :: "string option"
  ownership :: "string option"
  bedrooms :: "rat option"
  bathrooms :: "rat option"
  sqft :: "rat option"

text \<open>
  A listings frame: the labels of the columns it has (\<^verbatim>\<open>df.columns\<close>) and its rows.
  The code asks \<^verbatim>\<open>'price' in df.columns\<close> and reads \<^verbatim>\<open>row['price']\<close> or
  \<^verbatim>\<open>row.get('tax')\<close>, so the labels are part of the data. The cell of a row under a
  label that the frame does not have is never read by the functions below.
\<close>

record frame =
  columns :: "string list"
  rows :: "listing list"

text \<open>\<^verbatim>\<open>pd.DataFrame()\<close>: no column and no row.\<close>

definition empty_frame :: frame where
  "empty_frame = \<lparr>columns = [], rows = []\<rparr>"

text \<open>\<^verbatim>\<open>df.empty\<close>: true when either axis has length 0.\<close>

definition df_empty :: "frame \<Rightarrow> bool" where
  "df_empty df = (rows df = [] \<or> columns df = [])"

definition has_column :: "frame \<Rightarrow> string \<Rightarrow> bool" where
  "has_column df c = (c \<in> set (columns df))"

section \<open>The validator\<close>

text \<open>
  \<^verbatim>\<open>self.validation_rules\<close>: the inclusive bounds of the four checked fields.
\<close>

definition price_rule :: "rat \<times> rat" where
  "price_rule = (0, 100000000)"

definition sqft_rule :: "rat \<times> rat" where
  "sqft_rule = (100, 50000)"

definition bedrooms_rule :: "rat \<times> rat" where
  "bedrooms_rule = (0, 20)"

definition bathrooms_rule :: "rat \<times> rat" where
  "bathrooms_rule = (0, 15)"

text \<open>
  The two masks of \<^verbatim>\<open>validate_data\<close>. A comparison with a null cell is False in
  pandas, so a null cell is neither inside the bounds (\<^verbatim>\<open>(x >= lo) & (x <= hi)\<close>)
  nor outside them (\<^verbatim>\<open>(x < lo) | (x > hi)\<close>).
\<close>

definition ge_and_le :: "rat \<times> rat \<Rightarrow> rat option \<Rightarrow> bool" where
  "ge_and_le rule cell =
     (case cell of None \<Rightarrow> False | Some v \<Rightarrow> fst rule \<le> v \<and> v \<le> snd rule)"

definition lt_or_gt :: "rat \<times> rat \<Rightarrow> rat option \<Rightarrow> bool" where
  "lt_or_gt rule cell =
     (case cell of None \<Rightarrow> False | Some v \<Rightarrow> v < fst rule \<or> snd rule < v)"

text \<open>
  The four steps of \<^verbatim>\<open>validate_data\<close>, each behind its
  \<^verbatim>\<open>if '...' in df_valid.columns\<close>: the price step keeps the rows of the mask, the
  other three assign None to the cells of the mask (\<^verbatim>\<open>df_valid.loc[mask, 'sqft'] = None\<close>).
\<close>

definition validate_price :: "frame \<Rightarrow> frame" where
  "validate_price df =
     (if has_column df ''price''
      then df\<lparr>rows := filter (\<lambda>r. ge_and_le price_rule (price r)) (rows df)\<rparr>
      else df)"

definition validate_sqft :: "frame \<Rightarrow> frame" where
  "validate_sqft df =
     (if has_column df ''sqft''
      then df\<lparr>rows := map (\<lambda>r. if lt_or_gt sqft_rule (sqft r) then r\<lparr>sqft := None\<rparr> else r) (rows df)\<rparr>
      else df)"

definition validate_bedrooms :: "frame \<Rightarrow> frame" where
  "validate_bedrooms df =
     (if has_column df ''bedrooms''
      then df\<lparr>rows := map (\<lambda>r. if lt_or_gt bedrooms_rule (bedrooms r) then r\<lparr>bedrooms := None\<rparr> else r) (rows df)\<rparr>
      else df)"

definition validate_bathrooms :: "frame \<Rightarrow> frame" where
  "validate_bathrooms df =
     (if has_column df ''bathrooms''
      then df\<lparr>rows := map (\<lambda>r. if lt_or_gt bathrooms_rule (bathrooms r) then r\<lparr>bathrooms := None\<rparr> else r) (rows df)\<rparr>
      else df)"

definition validate_data :: "frame \<Rightarrow> frame" where
  "validate_data df = validate_bathrooms (validate_bedrooms (validate_sqft (validate_price df)))"

text \<open>
  The validator as the specification words it: a record is dropped when its price is not
  within \<open>[0, 100_000_000]\<close>; a kept record has its area, bedrooms and bathrooms nulled
  where they are outside \<open>[100, 50_000]\<close>, \<open>[0, 20]\<close> and \<open>[0, 15]\<close>, and nothing
  else is changed.
\<close>

definition spec_within :: "rat \<Rightarrow> rat \<Rightarrow> rat option \<Rightarrow> bool" where
  "spec_within lo hi cell = (case cell of None \<Rightarrow> False | Some v \<Rightarrow> lo \<le> v \<and> v \<le> hi)"

definition spec_null_outside :: "rat \<Rightarrow> rat \<Rightarrow> rat option \<Rightarrow> rat option" where
  "spec_null_outside lo hi cell =
     (case cell of None \<Rightarrow> None | Some v \<Rightarrow> if lo \<le> v \<and> v \<le> hi then Some v else None)"

definition spec_soft_rules :: "listing \<Rightarrow> listing" where
  "spec_soft_rules r =
     r\<lparr>sqft := spec_null_outside 100 50000 (sqft r),
       bedrooms := spec_null_outside 0 20 (bedrooms r),
       bathrooms := spec_null_outside 0 15 (bathrooms r)\<rparr>"

definition spec_validate :: "listing list \<Rightarrow> listing list" where
  "spec_validate rs = map spec_soft_rules (filter (\<lambda>r. spec_within 0 100000000 (price r)) rs)"

text \<open>A frame that has the four columns the validator checks.\<close>

definition has_checked_columns :: "frame \<Rightarrow> bool" where
  "has_checked_columns df =
     (has_column df ''price'' \<and> has_column df ''sqft'' \<and>
      has_column df ''bedrooms'' \<and> has_column df ''bathrooms'')"

text \<open>A record with the given identifier, price and bedrooms, used in the examples.\<close>

definition sample_listing :: "string \<Rightarrow> rat option \<Rightarrow> rat option \<Rightarrow> listing" where
  "sample_listing ident p b =
     \<lparr>listing_id = Some ident, date = Some ''2020-01-31 00:00:00'',
      region = Some ''FL'', city = Some ''Miami'', property_type = Some ''condo'',
      price = p, tax = None, sale_type = Some ''sale'', ownership = Some ''unknown'',
      bedrooms = b, bathrooms = None, sqft = None\<rparr>"

definition listing_columns :: "string list" where
  "listing_columns =
     [''listing_id'', ''date'', ''region'', ''city'', ''property_type'',
      ''price'', ''tax'', ''sale_type'', ''ownership'', ''bedrooms'',
      ''bathrooms'', ''sqft'']"

section \<open>Identifiers\<close>

text \<open>
  Both adapters compute \<^verbatim>\<open>hashlib.md5(f"<source>_<key>_<date>".encode()).hexdigest()[:16]\<close>.
  MD5 is a library function, not code of the repository: every function below takes it
  as the parameter \<open>md5_hexdigest\<close>, and every statement holds for any function in its
  place. The f-string interpolates \<^verbatim>\<open>str\<close> of the cells: \<^verbatim>\<open>NaT\<close> for a null
  timestamp, \<^verbatim>\<open>nan\<close> for a null text cell.
\<close>

definition str_timestamp :: "timestamp option \<Rightarrow> string" where
  "str_timestamp d = (case d of None \<Rightarrow> ''NaT'' | Some t \<Rightarrow> t)"

definition str_text :: "string option \<Rightarrow> string" where
  "str_text c = (case c of None \<Rightarrow> ''nan'' | Some s \<Rightarrow> s)"

definition zillow_key :: "string \<Rightarrow> timestamp option \<Rightarrow> string" where
  "zillow_key rid d = ''zillow_'' @ rid @ ''_'' @ str_timestamp d"

definition zillow_listing_id :: "(string \<Rightarrow> string) \<Rightarrow> string \<Rightarrow> timestamp option \<Rightarrow> string" where
  "zillow_listing_id md5_hexdigest rid d = take 16 (md5_hexdigest (zillow_key rid d))"

definition redfin_key :: "string \<Rightarrow> timestamp option \<Rightarrow> string" where
  "redfin_key reg d = ''redfin_'' @ reg @ ''_'' @ str_timestamp d"

definition redfin_listing_id :: "(string \<Rightarrow> string) \<Rightarrow> string \<Rightarrow> timestamp option \<Rightarrow> string" where
  "redfin_listing_id md5_hexdigest reg d = take 16 (md5_hexdigest (redfin_key reg d))"

section \<open>MD5\<close>

text \<open>
  \<^verbatim>\<open>hashlib.md5(text.encode()).hexdigest()\<close> is the MD5 of RFC 1321, written in hex:
  the function below follows the RFC (padding, sixteen little-endian words a block,
  sixty-four steps, the table of sines and the rotations). It is used where a statement is
  about the digests themselves; the adapters take the hash as a parameter. A text is taken
  to be ASCII, one byte a character.
\<close>

definition md5_K :: "32 word list" where
  "md5_K =
     [0xd76aa478, 0xe8c7b756, 0x242070db, 0xc1bdceee,
      0xf57c0faf, 0x4787c62a, 0xa8304613, 0xfd469501,
      0x698098d8, 0x8b44f7af, 0xffff5bb1, 0x895cd7be,
      0x6b901122, 0xfd987193, 0xa679438e, 0x49b40821,
      0xf61e2562, 0xc040b340, 0x265e5a51, 0xe9b6c7aa,
      0xd62f105d, 0x02441453, 0xd8a1e681, 0xe7d3fbc8,
      0x21e1cde6, 0xc33707d6, 0xf4d50d87, 0x455a14ed,
      0xa9e3e905, 0xfcefa3f8, 0x676f02d9, 0x8d2a4c8a,
      0xfffa3942, 0x8771f681, 0x6d9d6122, 0xfde5380c,
      0xa4beea44, 0x4bdecfa9, 0xf6bb4b60, 0xbebfbc70,
      0x289b7ec6, 0xeaa127fa, 0xd4ef3085, 0x04881d05,
      0xd9d4d039, 0xe6db99e5, 0x1fa27cf8, 0xc4ac5665,
      0xf4292244, 0x432aff97, 0xab9423a7, 0xfc93a039,
      0x655b59c3, 0x8f0ccc92, 0xffeff47d, 0x85845dd1,
      0x6fa87e4f, 0xfe2ce6e0, 0xa3014314, 0x4e0811a1,
      0xf7537e82, 0xbd3af235, 0x2ad7d2bb, 0xeb86d391]"

definition md5_s :: "nat list" where
  "md5_s =
     [7, 12, 17, 22, 7, 12, 17, 22, 7, 12, 17, 22, 7, 12, 17, 22,
      5, 9, 14, 20, 5, 9, 14, 20, 5, 9, 14, 20, 5, 9, 14, 20,
      4, 11, 16, 23, 4, 11, 16, 23, 4, 11, 16, 23, 4, 11, 16, 23,
      6, 10, 15, 21, 6, 10, 15, 21, 6, 10, 15, 21, 6, 10, 15, 21]"

definition md5_pad :: "string \<Rightarrow> 8 word list" where
  "md5_pad msg =
     (let n = length msg;
          zeros = (55 - n mod 64) mod 64;
          bits = (of_nat (8 * n) :: 64 word)
      in map (\<lambda>c. of_nat (of_char c)) msg @ [128] @ replicate zeros 0 @
         map (\<lambda>i. ucast (drop_bit (8 * i) bits)) [0 ..< 8])"

fun le_words :: "8 word list \<Rightarrow> 32 word list" where
  "le_words (b0 # b1 # b2 # b3 # bs) =
     (ucast b0 OR push_bit 8 (ucast b1) OR push_bit 16 (ucast b2) OR push_bit 24 (ucast b3))
       # le_words bs"
| "le_words bs = []"

definition md5_step ::
  "32 word list \<Rightarrow> 32 word \<times> 32 word \<times> 32 word \<times> 32 word \<Rightarrow> nat
     \<Rightarrow> 32 word \<times> 32 word \<times> 32 word \<times> 32 word" where
  "md5_step m st i =
     (case st of (a, b, c, d) \<Rightarrow>
        let f = (if i < 16 then (b AND c) OR (NOT b AND d)
                 else if i < 32 then (d AND b) OR (NOT d AND c)
                 else if i < 48 then b XOR c XOR d
                 else c XOR (b OR NOT d));
            g = (if i < 16 then i
                 else if i < 32 then (5 * i + 1) mod 16
                 else if i < 48 then (3 * i + 5) mod 16
                 else (7 * i) mod 16);
            f' = f + a + md5_K ! i + m ! g
        in (d, b + word_rotl (md5_s ! i) f', b, c))"

definition md5_block ::
  "32 word \<times> 32 word \<times> 32 word \<times> 32 word \<Rightarrow> 32 word list
     \<Rightarrow> 32 word \<times> 32 word \<times> 32 word \<times> 32 word" where
  "md5_block h m =
     (case h of (a0, b0, c0, d0) \<Rightarrow>
        case foldl (md5_step m) h [0 ..< 64] of (a, b, c, d) \<Rightarrow>
          (a0 + a, b0 + b, c0 + c, d0 + d))"

fun md5_blocks ::
  "32 word \<times> 32 word \<times> 32 word \<times> 32 word \<Rightarrow> 32 word list
     \<Rightarrow> 32 word \<times> 32 word \<times> 32 word \<times> 32 word" where
  "md5_blocks h ws =
     (if length ws < 16 then h else md5_blocks (md5_block h (take 16 ws)) (drop 16 ws))"

definition hex_digit :: "nat \<Rightarrow> char" where
  "hex_digit n = ''0123456789abcdef'' ! n"

definition hex_byte :: "8 word \<Rightarrow> string" where
  "hex_byte b = [hex_digit (unat b div 16), hex_digit (unat b mod 16)]"

definition le_bytes :: "32 word \<Rightarrow> 8 word list" where
  "le_bytes w = map (\<lambda>i. ucast (drop_bit (8 * i) w)) [0 ..< 4]"

definition md5_rfc1321 :: "string \<Rightarrow> string" where
  "md5_rfc1321 msg =
     (case md5_blocks (0x67452301, 0xefcdab89, 0x98badcfe, 0x10325476) (le_words (md5_pad msg)) of
        (a, b, c, d) \<Rightarrow> concat (map hex_byte (le_bytes a @ le_bytes b @ le_bytes c @ le_bytes d)))"

section \<open>The wide-format adapter (Zillow)\<close>

text \<open>
  A raw Zillow frame is wide: the identifying columns and one column per date. A row holds
  the text \<^verbatim>\<open>str\<close> gives for its \<^verbatim>\<open>RegionID\<close> cell (all the code does with it is
  interpolate it), the other identifying cells, and under each date label the number that
  \<^verbatim>\<open>pd.to_numeric(..., errors='coerce')\<close> makes of the cell: \<open>None\<close> for an empty or
  non-numeric cell.

  \<^verbatim>\<open>pd.to_datetime\<close> is a library function too. The code calls it once on a whole
  column (the format is found from the column, not cell by cell): the parameter
  \<open>to_datetime\<close> gives, for the cells of a column, the exception it raises or the
  timestamps it returns, one per cell (\<open>None\<close> for NaT).
\<close>

record zillow_row =
  RegionID :: string
  SizeRank :: "rat option"
  RegionName :: "string option"
  RegionType :: "string option"
  StateName :: "string option"
  value_at :: "string \<Rightarrow> rat option"

record zillow_frame =
  zcolumns :: "string list"
  zrows :: "zillow_row list"

definition zillow_id_vars :: "string list" where
  "zillow_id_vars = [''RegionID'', ''SizeRank'', ''RegionName'', ''RegionType'', ''StateName'']"

text \<open>
  \<^verbatim>\<open>df.melt(id_vars, value_vars=date_cols, var_name='date', value_name='price')\<close>:
  for each date column in turn, one long row per row of the frame.
\<close>

definition melt :: "string list \<Rightarrow> zillow_row list \<Rightarrow> (zillow_row \<times> string \<times> rat option) list" where
  "melt date_cols rs = concat (map (\<lambda>c. map (\<lambda>r. (r, c, value_at r c)) rs) date_cols)"

text \<open>
  \<^verbatim>\<open>df_clean['date'] = pd.to_datetime(df_clean['date'])\<close> on the long frame: one
  call on the column of labels. The assignment needs one timestamp per row.
\<close>

definition parse_dates ::
  "(string option list \<Rightarrow> error + timestamp option list) \<Rightarrow> (zillow_row \<times> string \<times> rat option) list
     \<Rightarrow> error + (zillow_row \<times> timestamp option \<times> rat option) list" where
  "parse_dates to_datetime xs =
     (case to_datetime (map (\<lambda>x. Some (fst (snd x))) xs) of
        Inl e \<Rightarrow> Inl e
      | Inr ds \<Rightarrow>
          if length ds = length xs
          then Inr (map (\<lambda>(x, d). (fst x, d, snd (snd x))) (zip xs ds))
          else Inl ValueError)"

text \<open>\<^verbatim>\<open>df_clean.dropna(subset=['price'])\<close>.\<close>

fun dropna_price ::
  "(zillow_row \<times> timestamp option \<times> rat option) list \<Rightarrow> (zillow_row \<times> timestamp option \<times> rat) list" where
  "dropna_price [] = []"
| "dropna_price ((r, d, None) # xs) = dropna_price xs"
| "dropna_price ((r, d, Some p) # xs) = (r, d, p) # dropna_price xs"

text \<open>
  One output record: the identifier, the renamed columns (\<^verbatim>\<open>RegionName\<close> to
  \<^verbatim>\<open>city\<close>, \<^verbatim>\<open>StateName\<close> to \<^verbatim>\<open>region\<close>, where the raw frame has them) and the
  defaults.
\<close>

definition zillow_listing ::
  "(string \<Rightarrow> string) \<Rightarrow> string list \<Rightarrow> zillow_row \<times> timestamp option \<times> rat \<Rightarrow> listing" where
  "zillow_listing md5_hexdigest id_vars x =
     (case x of (r, d, p) \<Rightarrow>
       \<lparr>listing_id = Some (zillow_listing_id md5_hexdigest (RegionID r) d),
        date = d,
        region = (if ''StateName'' \<in> set id_vars then StateName r else None),
        city = (if ''RegionName'' \<in> set id_vars then RegionName r else None),
        property_type = Some ''condo'',
        price = Some p,
        tax = None,
        sale_type = Some ''sale'',
        ownership = Some ''unknown'',
        bedrooms = None,
        bathrooms = None,
        sqft = None\<rparr>)"

definition zillow_rename :: "string \<Rightarrow> string" where
  "zillow_rename c =
     (if c = ''RegionName'' then ''city'' else if c = ''StateName'' then ''region'' else c)"

definition zillow_clean_columns :: "string list \<Rightarrow> string list" where
  "zillow_clean_columns id_vars =
     map zillow_rename id_vars @
     [''date'', ''price'', ''listing_id'', ''property_type'', ''sale_type'', ''ownership'',
      ''bedrooms'', ''bathrooms'', ''sqft'', ''tax'']"

text \<open>
  \<^verbatim>\<open>clean_zillow_data\<close>. Every exception inside the \<^verbatim>\<open>try\<close> ends in
  \<^verbatim>\<open>return pd.DataFrame()\<close>: labels that do not parse, and a frame without
  \<^verbatim>\<open>RegionID\<close> (the lambda's \<^verbatim>\<open>x['RegionID']\<close>). When \<^verbatim>\<open>dropna\<close> leaves
  no row the lambda is not called on any row: nothing is raised and the selected columns
  come out without rows.
\<close>

definition clean_zillow_data ::
  "(string \<Rightarrow> string) \<Rightarrow> (string option list \<Rightarrow> error + timestamp option list) \<Rightarrow> zillow_frame \<Rightarrow> frame" where
  "clean_zillow_data md5_hexdigest to_datetime df =
     (if zrows df = [] \<or> zcolumns df = [] then empty_frame
      else
        let id_vars = filter (\<lambda>c. c \<in> set (zcolumns df)) zillow_id_vars;
            date_cols = filter (\<lambda>c. c \<notin> set id_vars) (zcolumns df);
            df_long = melt date_cols (zrows df)
        in case parse_dates to_datetime df_long of
             Inl e \<Rightarrow> empty_frame
           | Inr dated \<Rightarrow>
               let df_clean = dropna_price dated
               in if df_clean = []
                  then \<lparr>columns = filter (\<lambda>c. c \<in> set (zillow_clean_columns id_vars)) listing_columns,
                        rows = []\<rparr>
                  else if ''RegionID'' \<in> set id_vars
                  then \<lparr>columns = filter (\<lambda>c. c \<in> set (zillow_clean_columns id_vars)) listing_columns,
                        rows = map (zillow_listing md5_hexdigest id_vars) df_clean\<rparr>
                  else empty_frame)"

section \<open>The tabular adapter (Redfin)\<close>

text \<open>
  A raw Redfin frame, as \<^verbatim>\<open>pd.read_csv\<close> gives it: the labels of all its columns, and
  of each row the five cells the adapter reads and the cell of a column \<^verbatim>\<open>city\<close> (the
  state tracker file has one). A column under another label is dropped by the column
  selection, or overwritten by a default before it; the labels \<^verbatim>\<open>date\<close> and
  \<^verbatim>\<open>price\<close>, which the tracker file does not have, are taken not to occur in a raw
  frame.
\<close>

record redfin_row =
  period_end :: "string option"
  redfin_region :: "string option"
  redfin_city :: "string option"
  state_code :: "string option"
  median_sale_price :: "rat option"
  redfin_property_type :: "string option"

record redfin_frame =
  rcolumns :: "string list"
  rrows :: "redfin_row list"

text \<open>
  \<^verbatim>\<open>df_clean['period_end'] = pd.to_datetime(df_clean['period_end'])\<close>: one call on
  the column.
\<close>

definition parse_period_end ::
  "(string option list \<Rightarrow> error + timestamp option list) \<Rightarrow> redfin_row list
     \<Rightarrow> error + (redfin_row \<times> timestamp option) list" where
  "parse_period_end to_datetime rs =
     (case to_datetime (map period_end rs) of
        Inl e \<Rightarrow> Inl e
      | Inr ds \<Rightarrow> if length ds = length rs then Inr (zip rs ds) else Inl ValueError)"

text \<open>
  \<^verbatim>\<open>.str.lower()\<close> on labels; the model lowers the ASCII letters, so a label is taken
  to be ASCII text.
\<close>

definition lower_char :: "char \<Rightarrow> char" where
  "lower_char c =
     (case map_of (zip ''ABCDEFGHIJKLMNOPQRSTUVWXYZ'' ''abcdefghijklmnopqrstuvwxyz'') c of
        None \<Rightarrow> c
      | Some l \<Rightarrow> l)"

definition str_lower :: "string \<Rightarrow> string" where
  "str_lower s = map lower_char s"

text \<open>
  \<^verbatim>\<open>.replace({...})\<close> with the three entries of the adapter's mapping: a value that
  is no key of the dictionary is left as it is.
\<close>

definition replace_property_type :: "string \<Rightarrow> string" where
  "replace_property_type s =
     (if s = ''single family residential'' then ''independent''
      else if s = ''condo/co-op'' then ''condo''
      else if s = ''townhouse'' then ''townhouse''
      else s)"

definition redfin_property_type_out :: "string list \<Rightarrow> redfin_row \<Rightarrow> string option" where
  "redfin_property_type_out cols r =
     (if ''property_type'' \<in> set cols
      then map_option (\<lambda>s. replace_property_type (str_lower s)) (redfin_property_type r)
      else Some ''other'')"

definition redfin_listing ::
  "(string \<Rightarrow> string) \<Rightarrow> string list \<Rightarrow> redfin_row \<times> timestamp option \<Rightarrow> listing" where
  "redfin_listing md5_hexdigest cols x =
     (case x of (r, d) \<Rightarrow>
       \<lparr>listing_id = Some (redfin_listing_id md5_hexdigest
            (if ''region'' \<in> set cols then str_text (redfin_region r) else []) d),
        date = d,
        region = (if ''state_code'' \<in> set cols then state_code r else None),
        city = (if ''region'' \<in> set cols then redfin_region r
                else if ''city'' \<in> set cols then redfin_city r else None),
        property_type = redfin_property_type_out cols r,
        price = (if ''median_sale_price'' \<in> set cols then median_sale_price r else None),
        tax = None,
        sale_type = Some ''sale'',
        ownership = Some ''unknown'',
        bedrooms = None,
        bathrooms = None,
        sqft = None\<rparr>)"

definition redfin_rename :: "string \<Rightarrow> string" where
  "redfin_rename c =
     (if c = ''period_end'' then ''date''
      else if c = ''region'' then ''city''
      else if c = ''state_code'' then ''region''
      else if c = ''median_sale_price'' then ''price''
      else c)"

text \<open>
  The labels of \<^verbatim>\<open>df_clean\<close> before the selection. An assignment
  \<^verbatim>\<open>df_clean['tax'] = None\<close> adds a column only where the frame has none under the
  label; \<^verbatim>\<open>rename\<close> renames each column on its own, so a raw frame with the columns
  \<^verbatim>\<open>region\<close> and \<^verbatim>\<open>city\<close> comes out with the label \<^verbatim>\<open>city\<close> twice.
\<close>

definition add_column :: "string \<Rightarrow> string list \<Rightarrow> string list" where
  "add_column c cols = (if c \<in> set cols then cols else cols @ [c])"

definition redfin_clean_columns :: "string list \<Rightarrow> string list" where
  "redfin_clean_columns cols =
     fold add_column
       [''sale_type'', ''ownership'', ''tax'', ''bedrooms'', ''bathrooms'', ''sqft'', ''property_type'']
       (map redfin_rename (add_column ''listing_id'' cols))"

text \<open>
  \<^verbatim>\<open>df_clean[[col for col in columns if col in df_clean.columns]]\<close>: a label that the
  frame has twice selects both columns.
\<close>

definition select_columns :: "string list \<Rightarrow> string list \<Rightarrow> string list" where
  "select_columns wanted cols = concat (map (\<lambda>c. filter (\<lambda>d. d = c) cols) wanted)"

text \<open>\<^verbatim>\<open>drop_duplicates(subset=['listing_id'])\<close>: the first row of each identifier stays.\<close>

fun drop_duplicates :: "string option list \<Rightarrow> listing list \<Rightarrow> listing list" where
  "drop_duplicates seen [] = []"
| "drop_duplicates seen (r # rs) =
     (if listing_id r \<in> set seen then drop_duplicates seen rs
      else r # drop_duplicates (listing_id r # seen) rs)"

text \<open>
  \<^verbatim>\<open>clean_redfin_data\<close>. The exceptions that end in \<^verbatim>\<open>return pd.DataFrame()\<close>: a
  frame without \<^verbatim>\<open>period_end\<close>, periods that do not parse, and a
  \<^verbatim>\<open>property_type\<close> column without any text (\<^verbatim>\<open>read_csv\<close> types it float64, on
  which \<^verbatim>\<open>.str\<close> raises).
\<close>

definition clean_redfin_data ::
  "(string \<Rightarrow> string) \<Rightarrow> (string option list \<Rightarrow> error + timestamp option list) \<Rightarrow> redfin_frame \<Rightarrow> frame" where
  "clean_redfin_data md5_hexdigest to_datetime df =
     (if rrows df = [] \<or> rcolumns df = [] then empty_frame
      else if ''period_end'' \<in> set (rcolumns df)
      then (case parse_period_end to_datetime (rrows df) of
              Inl e \<Rightarrow> empty_frame
            | Inr dated \<Rightarrow>
                if ''property_type'' \<in> set (rcolumns df) \<and>
                   list_all (\<lambda>r. redfin_property_type r = None) (rrows df)
                then empty_frame
                else \<lparr>columns = select_columns listing_columns (redfin_clean_columns (rcolumns df)),
                      rows = drop_duplicates [] (map (redfin_listing md5_hexdigest (rcolumns df)) dated)\<rparr>)
      else empty_frame)"

section \<open>The loader\<close>

text \<open>
  Modelled from the spec: the definition of the table \<^verbatim>\<open>listings\<close> is not among the
  sources. The specification gives ``a relational table \<^verbatim>\<open>listings\<close> keyed by
  \<^verbatim>\<open>identifier\<close> with an upsert-on-conflict clause updating \<^verbatim>\<open>price\<close> and an
  updated timestamp''. The table is the list of its rows in insertion order; a row holds
  the twelve columns of the statement and \<^verbatim>\<open>updated_at\<close>. A null identifier is
  refused, as a key. Which other values the table refuses (constraints, types) and what
  \<^verbatim>\<open>updated_at\<close> holds after an insert that does not mention it are parameters: the
  record \<open>schema\<close>. Time is a number, and \<open>clock i\<close> is the
  \<^verbatim>\<open>CURRENT_TIMESTAMP\<close> of the transaction of the \<open>i\<close>-th row of a batch.
\<close>

record db_row =
  data :: listing
  updated_at :: "nat option"

record schema =
  accepts :: "listing \<Rightarrow> bool"
  updated_at_default :: "nat \<Rightarrow> nat option"

text \<open>\<^verbatim>\<open>int(x)\<close> on a float truncates towards zero; \<^verbatim>\<open>float(x)\<close> changes nothing.\<close>

definition py_int :: "rat \<Rightarrow> rat" where
  "py_int x = of_int (if 0 \<le> x then \<lfloor>x\<rfloor> else \<lceil>x\<rceil>)"

definition row_get :: "string list \<Rightarrow> string \<Rightarrow> 'a option \<Rightarrow> 'a option" where
  "row_get cols c cell = (if c \<in> set cols then cell else None)"

text \<open>
  A null cell of a text column that comes from \<^verbatim>\<open>read_csv\<close> is the float NaN. The
  code hands it to the driver as it is, and the driver writes it into the text column as
  the text \<^verbatim>\<open>NaN\<close>. The numeric cells go through \<^verbatim>\<open>pd.notna\<close> and are bound as
  NULL when null. The identifier is computed by the adapters and is a text in every row
  they give; a row without one binds NULL. A null date is NaT, handed to the driver as it
  is (it is for the table to accept it or not).
\<close>

definition bind_text :: "string option \<Rightarrow> string option" where
  "bind_text cell = (case cell of None \<Rightarrow> Some ''NaN'' | Some s \<Rightarrow> Some s)"

text \<open>
  A frame that has one of the twelve labels twice: the row then holds a Series under the
  label, which no parameter can be (the driver cannot adapt it, \<^verbatim>\<open>float\<close> and the
  truth value of \<^verbatim>\<open>pd.notna\<close> raise).
\<close>

definition repeated_label :: "string list \<Rightarrow> bool" where
  "repeated_label cols = list_ex (\<lambda>c. 1 < count_list cols c) listing_columns"

text \<open>
  The dictionary of bound parameters. \<^verbatim>\<open>row['listing_id']\<close>, \<^verbatim>\<open>row['date']\<close>,
  \<^verbatim>\<open>row['region']\<close> and \<^verbatim>\<open>row['price']\<close> raise KeyError on a frame without the
  column; the other cells are read with \<^verbatim>\<open>row.get\<close>.
\<close>

definition bind_params :: "string list \<Rightarrow> listing \<Rightarrow> error + listing" where
  "bind_params cols row =
     (if ''listing_id'' \<in> set cols \<and> ''date'' \<in> set cols \<and> ''region'' \<in> set cols \<and>
         ''price'' \<in> set cols
      then if repeated_label cols then Inl ValueError
           else Inr \<lparr>listing_id = listing_id row,
                date = date row,
                region = bind_text (region row),
                city = row_get cols ''city'' (bind_text (city row)),
                property_type = row_get cols ''property_type'' (bind_text (property_type row)),
                price = price row,
                tax = row_get cols ''tax'' (tax row),
                sale_type = row_get cols ''sale_type'' (bind_text (sale_type row)),
                ownership = row_get cols ''ownership'' (bind_text (ownership row)),
                bedrooms = map_option py_int (row_get cols ''bedrooms'' (bedrooms row)),
                bathrooms = row_get cols ''bathrooms'' (bathrooms row),
                sqft = map_option py_int (row_get cols ''sqft'' (sqft row))\<rparr>
      else Inl KeyError)"

text \<open>
  \<^verbatim>\<open>INSERT INTO listings (...) VALUES (...) ON CONFLICT (listing_id) DO UPDATE SET
  price = EXCLUDED.price, updated_at = CURRENT_TIMESTAMP\<close>.
\<close>

definition on_conflict_update :: "nat \<Rightarrow> listing \<Rightarrow> db_row \<Rightarrow> db_row" where
  "on_conflict_update now p row =
     row\<lparr>data := (data row)\<lparr>price := price p\<rparr>, updated_at := Some now\<rparr>"

definition upsert :: "schema \<Rightarrow> nat \<Rightarrow> listing \<Rightarrow> db_row list \<Rightarrow> db_row list" where
  "upsert sch now p tbl =
     (if listing_id p \<in> set (map (\<lambda>row. listing_id (data row)) tbl)
      then map (\<lambda>row. if listing_id (data row) = listing_id p
                      then on_conflict_update now p row else row) tbl
      else tbl @ [\<lparr>data = p, updated_at = updated_at_default sch now\<rparr>])"

definition execute :: "schema \<Rightarrow> nat \<Rightarrow> listing \<Rightarrow> db_row list \<Rightarrow> error + db_row list" where
  "execute sch now p tbl =
     (if listing_id p = None then Inl StorageError
      else if accepts sch p then Inr (upsert sch now p tbl)
      else Inl StorageError)"

text \<open>The body of the \<^verbatim>\<open>try\<close>: one record, one transaction.\<close>

definition write_listing ::
  "schema \<Rightarrow> nat \<Rightarrow> string list \<Rightarrow> listing \<Rightarrow> db_row list \<Rightarrow> error + db_row list" where
  "write_listing sch now cols row tbl =
     (case bind_params cols row of
        Inl e \<Rightarrow> Inl e
      | Inr p \<Rightarrow> execute sch now p tbl)"

text \<open>
  The state of the loop: the table and the two counters. \<^verbatim>\<open>load_listings\<close> returns
  \<^verbatim>\<open>records_loaded\<close> and writes \<^verbatim>\<open>records_failed\<close> into its last log line.
\<close>

record loader =
  table :: "db_row list"
  records_loaded :: nat
  records_failed :: nat

fun load_rows ::
  "schema \<Rightarrow> (nat \<Rightarrow> nat) \<Rightarrow> string list \<Rightarrow> nat \<Rightarrow> listing list \<Rightarrow> loader \<Rightarrow> loader" where
  "load_rows sch clock cols i [] st = st"
| "load_rows sch clock cols i (row # rest) st =
     load_rows sch clock cols (Suc i) rest
       (case write_listing sch (clock i) cols row (table st) of
          Inr tbl \<Rightarrow> st\<lparr>table := tbl, records_loaded := records_loaded st + 1\<rparr>
        | Inl e \<Rightarrow> st\<lparr>records_failed := records_failed st + 1\<rparr>)"

definition load_listings :: "schema \<Rightarrow> (nat \<Rightarrow> nat) \<Rightarrow> frame \<Rightarrow> db_row list \<Rightarrow> loader" where
  "load_listings sch clock df tbl =
     (if df_empty df then \<lparr>table = tbl, records_loaded = 0, records_failed = 0\<rparr>
      else load_rows sch clock (columns df) 0 (rows df)
             \<lparr>table = tbl, records_loaded = 0, records_failed = 0\<rparr>)"

section \<open>Notions used in the statements about the loader\<close>

text \<open>
  Whether the write of a record succeeds: the parameters bind, the identifier is not null
  and the table accepts the values. It depends neither on the time nor on the rows the
  table holds.
\<close>

definition write_ok :: "schema \<Rightarrow> string list \<Rightarrow> listing \<Rightarrow> bool" where
  "write_ok sch cols row =
     (case bind_params cols row of
        Inl e \<Rightarrow> False
      | Inr p \<Rightarrow> if listing_id p = None then False else accepts sch p)"

text \<open>The parameters of the records of a batch whose write succeeds, in batch order.\<close>

definition written :: "schema \<Rightarrow> string list \<Rightarrow> listing list \<Rightarrow> listing list" where
  "written sch cols rs =
     concat (map (\<lambda>row. case bind_params cols row of
                          Inl e \<Rightarrow> []
                        | Inr p \<Rightarrow> if write_ok sch cols row then [p] else []) rs)"

text \<open>
  The upsert on the twelve columns alone, without \<^verbatim>\<open>updated_at\<close>: the view of the
  table in which a replay can be compared with a single run.
\<close>

definition set_price :: "listing \<Rightarrow> listing \<Rightarrow> listing" where
  "set_price p x = (if listing_id x = listing_id p then x\<lparr>price := price p\<rparr> else x)"

definition upsert_data :: "listing \<Rightarrow> listing list \<Rightarrow> listing list" where
  "upsert_data p t =
     (if listing_id p \<in> set (map listing_id t) then map (set_price p) t else t @ [p])"

definition reprice :: "listing list \<Rightarrow> listing \<Rightarrow> listing" where
  "reprice ps x = fold set_price ps x"

text \<open>The identifiers of the rows of the table, in row order.\<close>

definition ids_of :: "db_row list \<Rightarrow> string option list" where
  "ids_of tbl = map (\<lambda>row. listing_id (data row)) tbl"

text \<open>
  The columns that the \<^verbatim>\<open>DO UPDATE\<close> clause does not assign: a row keeps them
  when it is hit by a conflict.
\<close>

definition untouched_fields :: "listing \<Rightarrow> listing \<Rightarrow> bool" where
  "untouched_fields old new =
     (listing_id new = listing_id old \<and> date new = date old \<and> region new = region old \<and>
      city new = city old \<and> property_type new = property_type old \<and> tax new = tax old \<and>
      sale_type new = sale_type old \<and> ownership new = ownership old \<and>
      bedrooms new = bedrooms old \<and> bathrooms new = bathrooms old \<and> sqft new = sqft old)"

text \<open>
  The frame condition of a sequence of upserts whose identifiers are in \<open>A\<close>: the rows
  that were there stay at their places with the untouched fields as they were, and a row
  whose identifier is not in \<open>A\<close> is the same row.
\<close>

definition frame_cond :: "string option set \<Rightarrow> db_row list \<Rightarrow> db_row list \<Rightarrow> bool" where
  "frame_cond A old new =
     (length old \<le> length new \<and>
      (\<forall>i < length old. untouched_fields (data (old ! i)) (data (new ! i)) \<and>
          (listing_id (data (old ! i)) \<notin> A \<longrightarrow> new ! i = old ! i)))"

text \<open>
  Examples: a table whose \<^verbatim>\<open>price\<close> column is \<^verbatim>\<open>NOT NULL\<close> and whose
  \<^verbatim>\<open>updated_at\<close> defaults to the time of the insert; a batch of two records, the
  second without a price; a table that already holds two rows.
\<close>

definition sample_schema :: schema where
  "sample_schema = \<lparr>accepts = (\<lambda>p. price p \<noteq> None), updated_at_default = Some\<rparr>"

definition two_rows :: frame where
  "two_rows = \<lparr>columns = listing_columns,
               rows = [sample_listing ''aaaa'' (Some 250000) None, sample_listing ''bbbb'' None None]\<rparr>"

definition stored_two :: "db_row list" where
  "stored_two =
     [\<lparr>data = (sample_listing ''aaaa'' (Some 100) (Some 3))\<lparr>city := Some ''Tampa''\<rparr>, updated_at = Some 7\<rparr>,
      \<lparr>data = sample_listing ''cccc'' (Some 300) None, updated_at = None\<rparr>]"

section \<open>Notions used in the statements about the adapters\<close>

text \<open>
  The date columns of a raw Zillow frame (every column that is no identifying column) and
  the identifying columns it has: \<^verbatim>\<open>date_cols\<close> and \<^verbatim>\<open>id_vars\<close> of
  \<^verbatim>\<open>clean_zillow_data\<close>.
\<close>

definition zillow_date_cols :: "zillow_frame \<Rightarrow> string list" where
  "zillow_date_cols df = filter (\<lambda>c. c \<notin> set zillow_id_vars) (zcolumns df)"

definition zillow_present :: "zillow_frame \<Rightarrow> string list" where
  "zillow_present df = filter (\<lambda>c. c \<in> set (zcolumns df)) zillow_id_vars"

text \<open>
  Two raw rows with the same natural key: the same \<^verbatim>\<open>RegionID\<close> and prices under the
  same date labels (the values of the prices, and every other cell, are free); the same
  \<^verbatim>\<open>region\<close> and \<^verbatim>\<open>period_end\<close> (price, state, city and label are free).
\<close>

definition same_zillow_keys :: "zillow_row \<Rightarrow> zillow_row \<Rightarrow> bool" where
  "same_zillow_keys r r' =
     (RegionID r = RegionID r' \<and> (\<forall>c. (value_at r c = None) = (value_at r' c = None)))"

definition same_redfin_keys :: "redfin_row \<Rightarrow> redfin_row \<Rightarrow> bool" where
  "same_redfin_keys r r' =
     (period_end r = period_end r' \<and> redfin_region r = redfin_region r')"

text \<open>The same relation on the intermediate rows of the two adapters.\<close>

definition long_rel :: "zillow_row \<times> string \<times> rat option \<Rightarrow> zillow_row \<times> string \<times> rat option \<Rightarrow> bool" where
  "long_rel x y = (case x of (r, c, v) \<Rightarrow> case y of (r', c', v') \<Rightarrow>
      RegionID r = RegionID r' \<and> c = c' \<and> (v = None) = (v' = None))"

definition dated_rel :: "zillow_row \<times> timestamp option \<times> rat option \<Rightarrow> zillow_row \<times> timestamp option \<times> rat option \<Rightarrow> bool" where
  "dated_rel x y = (case x of (r, d, v) \<Rightarrow> case y of (r', d', v') \<Rightarrow>
      RegionID r = RegionID r' \<and> d = d' \<and> (v = None) = (v' = None))"

definition priced_rel :: "zillow_row \<times> timestamp option \<times> rat \<Rightarrow> zillow_row \<times> timestamp option \<times> rat \<Rightarrow> bool" where
  "priced_rel x y = (case x of (r, d, p) \<Rightarrow> case y of (r', d', p') \<Rightarrow>
      RegionID r = RegionID r' \<and> d = d')"

definition period_rel :: "redfin_row \<times> timestamp option \<Rightarrow> redfin_row \<times> timestamp option \<Rightarrow> bool" where
  "period_rel x y = (case x of (r, d) \<Rightarrow> case y of (r', d') \<Rightarrow>
      redfin_region r = redfin_region r' \<and> d = d')"


text \<open>
  Examples. \<open>iso_day_parser\<close> holds the values of \<^verbatim>\<open>pd.to_datetime\<close> on the
  columns the examples use: every cell is null or one of three texts \<^verbatim>\<open>YYYY-MM-DD\<close>,
  which parse to midnight of that day (a null cell to NaT). The raw frames are cut to the
  shape of the Zillow metro file (its first row is the United States, without a state) and
  of the Redfin state tracker. The last two entities have the identifying numbers of the
  two texts whose MD5 digests begin with the same 16 characters.
\<close>

definition iso_day :: "string option \<Rightarrow> bool" where
  "iso_day cell =
     (case cell of
        None \<Rightarrow> True
      | Some s \<Rightarrow> s = ''2020-01-31'' \<or> s = ''2020-02-29'' \<or> s = ''2020-03-31'')"

definition iso_day_parser :: "string option list \<Rightarrow> error + timestamp option list" where
  "iso_day_parser cells =
     (if list_all iso_day cells
      then Inr (map (map_option (\<lambda>s. s @ '' 00:00:00'')) cells)
      else Inl ValueError)"

definition zillow_entity ::
  "string \<Rightarrow> string option \<Rightarrow> string option \<Rightarrow> rat option \<Rightarrow> rat option \<Rightarrow> rat option \<Rightarrow> zillow_row" where
  "zillow_entity rid name state v1 v2 v3 =
     \<lparr>RegionID = rid, SizeRank = Some 1, RegionName = name, RegionType = Some ''msa'',
      StateName = state,
      value_at = (\<lambda>c. if c = ''2020-01-31'' then v1
                       else if c = ''2020-02-29'' then v2
                       else if c = ''2020-03-31'' then v3 else None)\<rparr>"

definition three_months :: "zillow_row list \<Rightarrow> zillow_frame" where
  "three_months rs =
     \<lparr>zcolumns = zillow_id_vars @ [''2020-01-31'', ''2020-02-29'', ''2020-03-31''], zrows = rs\<rparr>"

definition miami :: "rat \<Rightarrow> rat \<Rightarrow> rat \<Rightarrow> zillow_row" where
  "miami p1 p2 p3 =
     zillow_entity ''394913'' (Some ''Miami, FL'') (Some ''FL'') (Some p1) (Some p2) (Some p3)"

definition duplicate_region :: zillow_frame where
  "duplicate_region = three_months [miami 300000 305000 310000, miami 300500 305500 310500]"

definition united_states :: zillow_frame where
  "united_states =
     three_months [zillow_entity ''102001'' (Some ''United States'') None
                     (Some 300000) (Some 305000) (Some 310000)]"

definition collision_a :: zillow_row where
  "collision_a =
     zillow_entity ''4298268682234136438'' (Some ''Miami, FL'') (Some ''FL'')
       (Some 300000) None None"

definition collision_b :: zillow_row where
  "collision_b =
     zillow_entity ''3815936974142391928'' (Some ''Tampa, FL'') (Some ''FL'')
       (Some 250000) None None"

definition redfin_entity :: "string option \<Rightarrow> string option \<Rightarrow> string option \<Rightarrow> rat option \<Rightarrow> redfin_row" where
  "redfin_entity day label state p =
     \<lparr>period_end = day, redfin_region = Some ''Florida'', redfin_city = None, state_code = state,
      median_sale_price = p, redfin_property_type = label\<rparr>"

definition redfin_columns :: "string list" where
  "redfin_columns = [''period_end'', ''region'', ''state_code'', ''property_type'', ''median_sale_price'']"

definition all_residential :: redfin_frame where
  "all_residential =
     \<lparr>rcolumns = redfin_columns,
      rrows = [redfin_entity (Some ''2020-01-31'') (Some ''All Residential'') (Some ''FL'') (Some 280000)]\<rparr>"

definition condo_coop :: redfin_frame where
  "condo_coop =
     \<lparr>rcolumns = redfin_columns,
      rrows = [redfin_entity (Some ''2020-01-31'') (Some ''Condo/Co-op'') (Some ''FL'') (Some 250000)]\<rparr>"

section \<open>Properties of the validator\<close>

lemma soft_step_sqft:
  "(if lt_or_gt sqft_rule (sqft r) then r\<lparr>sqft := None\<rparr> else r)
     = r\<lparr>sqft := spec_null_outside 100 50000 (sqft r)\<rparr>"
  by (cases "sqft r") (auto simp: lt_or_gt_def sqft_rule_def spec_null_outside_def)

lemma soft_step_bedrooms:
  "(if lt_or_gt bedrooms_rule (bedrooms r) then r\<lparr>bedrooms := None\<rparr> else r)
     = r\<lparr>bedrooms := spec_null_outside 0 20 (bedrooms r)\<rparr>"
  by (cases "bedrooms r") (auto simp: lt_or_gt_def bedrooms_rule_def spec_null_outside_def)

lemma soft_step_bathrooms:
  "(if lt_or_gt bathrooms_rule (bathrooms r) then r\<lparr>bathrooms := None\<rparr> else r)
     = r\<lparr>bathrooms := spec_null_outside 0 15 (bathrooms r)\<rparr>"
  by (cases "bathrooms r") (auto simp: lt_or_gt_def bathrooms_rule_def spec_null_outside_def)

lemma price_mask_spec: "ge_and_le price_rule c = spec_within 0 100000000 c"
  by (cases c) (simp_all add: ge_and_le_def price_rule_def spec_within_def)

lemma columns_validate_data [simp]: "columns (validate_data df) = columns df"
  by (simp add: validate_data_def validate_price_def validate_sqft_def
      validate_bedrooms_def validate_bathrooms_def has_column_def)

lemma rows_validate_data_checked:
  assumes "has_checked_columns df"
  shows "rows (validate_data df) = spec_validate (rows df)"
  using assms
  by (simp add: has_checked_columns_def validate_data_def validate_price_def validate_sqft_def
      validate_bedrooms_def validate_bathrooms_def has_column_def spec_validate_def
      spec_soft_rules_def soft_step_sqft soft_step_bedrooms soft_step_bathrooms
      price_mask_spec comp_def)

lemma validate_data_rows:
  assumes "x \<in> set (rows (validate_data df))"
  shows "\<exists>y \<in> set (rows df). listing_id x = listing_id y \<and> price x = price y \<and>
            date x = date y \<and> region x = region y \<and>
            (if has_column df ''price'' then spec_within 0 100000000 (price y) else True)"
  using assms
  by (auto simp add: validate_data_def validate_price_def validate_sqft_def validate_bedrooms_def
      validate_bathrooms_def has_column_def price_mask_spec split: if_splits)

text \<open>
  C4. On a frame with the checked columns, \<^verbatim>\<open>validate_data\<close> returns exactly the
  records whose price is within \<open>[0, 100_000_000]\<close>, in their order, each with area,
  bedrooms and bathrooms nulled where outside their bounds and every other field as it
  was (a null price is not within the range). A record with a price of \<open>100_000_000\<close>
  is kept, a record with a price of \<open>100_000_001\<close> is dropped, and a record with 21
  bedrooms and a price within the range is kept with its bedrooms nulled.
\<close>

theorem validate_data_boundary:
  assumes "has_checked_columns df"
  shows "rows (validate_data df) = spec_validate (rows df)
    \<and> (price r = Some 100000000 \<longrightarrow>
          rows (validate_data (df\<lparr>rows := [r]\<rparr>)) = [spec_soft_rules r])
    \<and> (price r = Some 100000001 \<longrightarrow>
          rows (validate_data (df\<lparr>rows := [r]\<rparr>)) = [])
    \<and> (spec_within 0 100000000 (price r) \<and> bedrooms r = Some 21 \<longrightarrow>
          rows (validate_data (df\<lparr>rows := [r]\<rparr>)) = [spec_soft_rules r] \<and>
          bedrooms (spec_soft_rules r) = None \<and>
          spec_soft_rules r = r\<lparr>sqft := sqft (spec_soft_rules r), bedrooms := None,
                                 bathrooms := bathrooms (spec_soft_rules r)\<rparr>)"
proof -
  have kept: "rows (validate_data df) = spec_validate (rows df)"
    using assms by (rule rows_validate_data_checked)
  have "has_checked_columns (df\<lparr>rows := [r]\<rparr>)"
    using assms by (simp add: has_checked_columns_def has_column_def)
  then have one: "rows (validate_data (df\<lparr>rows := [r]\<rparr>)) = spec_validate [r]"
    using rows_validate_data_checked [of "df\<lparr>rows := [r]\<rparr>"] by simp
  have top: "price r = Some 100000000 \<longrightarrow> spec_validate [r] = [spec_soft_rules r]"
    by (simp add: spec_validate_def spec_within_def)
  have over: "price r = Some 100000001 \<longrightarrow> spec_validate [r] = []"
    by (simp add: spec_validate_def spec_within_def)
  have beds: "spec_within 0 100000000 (price r) \<and> bedrooms r = Some 21 \<longrightarrow>
          spec_validate [r] = [spec_soft_rules r] \<and> bedrooms (spec_soft_rules r) = None \<and>
          spec_soft_rules r = r\<lparr>sqft := sqft (spec_soft_rules r), bedrooms := None,
                                 bathrooms := bathrooms (spec_soft_rules r)\<rparr>"
    by (simp add: spec_validate_def spec_soft_rules_def spec_null_outside_def)
  from kept one top over beds show ?thesis by simp
qed

theorem validate_data_boundary_witness:
  "has_checked_columns
     \<lparr>columns = listing_columns,
      rows = [sample_listing ''0123'' (Some 100000000) (Some 20),
              sample_listing ''0123'' (Some 100000001) (Some 20),
              sample_listing ''0123'' (Some 250000) (Some 21)]\<rparr>
   \<and> rows (validate_data
       \<lparr>columns = listing_columns,
        rows = [sample_listing ''0123'' (Some 100000000) (Some 20),
                sample_listing ''0123'' (Some 100000001) (Some 20),
                sample_listing ''0123'' (Some 250000) (Some 21)]\<rparr>)
     = [sample_listing ''0123'' (Some 100000000) (Some 20), sample_listing ''0123'' (Some 250000) None]"
proof -
  let ?df = "\<lparr>columns = listing_columns,
      rows = [sample_listing ''0123'' (Some 100000000) (Some 20),
              sample_listing ''0123'' (Some 100000001) (Some 20),
              sample_listing ''0123'' (Some 250000) (Some 21)]\<rparr>"
  have h: "has_checked_columns ?df"
    by (simp add: has_checked_columns_def has_column_def listing_columns_def)
  have "rows (validate_data ?df) = spec_validate (rows ?df)"
    using validate_data_boundary [OF h] by blast
  also have "\<dots> = [sample_listing ''0123'' (Some 100000000) (Some 20), sample_listing ''0123'' (Some 250000) None]"
    by (simp add: spec_validate_def spec_within_def spec_soft_rules_def
        spec_null_outside_def sample_listing_def)
  finally show ?thesis using h by simp
qed

section \<open>Properties of the loader: counts and columns\<close>

lemma write_listing_cases:
  "write_listing sch now cols row tbl =
     (case bind_params cols row of
        Inl e \<Rightarrow> Inl e
      | Inr p \<Rightarrow> if write_ok sch cols row then Inr (upsert sch now p tbl) else Inl StorageError)"
  by (simp add: write_listing_def write_ok_def execute_def split: sum.splits)

lemma data_upsert: "map data (upsert sch now p tbl) = upsert_data p (map data tbl)"
  by (simp add: upsert_def upsert_data_def set_price_def on_conflict_update_def comp_def)

lemma load_rows_data:
  "map data (table (load_rows sch clock cols i rs st))
     = fold upsert_data (written sch cols rs) (map data (table st))"
proof (induction rs arbitrary: i st)
  case Nil
  then show ?case by (simp add: written_def)
next
  case (Cons row rest)
  show ?case
    by (simp add: Cons.IH write_listing_cases written_def data_upsert split: sum.splits)
qed

lemma load_rows_loaded:
  "records_loaded (load_rows sch clock cols i rs st)
     = records_loaded st + length (filter (write_ok sch cols) rs)"
proof (induction rs arbitrary: i st)
  case Nil
  then show ?case by simp
next
  case (Cons row rest)
  show ?case
    by (auto simp add: Cons.IH write_listing_cases write_ok_def split: sum.splits)
qed

lemma load_rows_failed:
  "records_failed (load_rows sch clock cols i rs st)
     = records_failed st + length (filter (\<lambda>r. \<not> write_ok sch cols r) rs)"
proof (induction rs arbitrary: i st)
  case Nil
  then show ?case by simp
next
  case (Cons row rest)
  show ?case
    by (auto simp add: Cons.IH write_listing_cases write_ok_def split: sum.splits)
qed

lemma bind_params_id: "bind_params cols row = Inr p \<Longrightarrow> listing_id p = listing_id row"
  by (auto simp: bind_params_def split: if_splits)

lemma ids_written_Cons:
  "set (map listing_id (written sch cols (row # rest)))
     = (case bind_params cols row of Inl e \<Rightarrow> {} | Inr p \<Rightarrow> if write_ok sch cols row then {listing_id p} else {})
       \<union> set (map listing_id (written sch cols rest))"
  by (simp add: written_def split: sum.splits)

lemma ids_written:
  "map listing_id (written sch cols rs) = map listing_id (filter (write_ok sch cols) rs)"
proof (induction rs)
  case Nil
  then show ?case by (simp add: written_def)
next
  case (Cons row rest)
  have rest: "written sch cols (row # rest)
      = (case bind_params cols row of Inl e \<Rightarrow> [] | Inr p \<Rightarrow> if write_ok sch cols row then [p] else [])
        @ written sch cols rest"
    by (simp add: written_def)
  show ?case
  proof (cases "bind_params cols row")
    case (Inl e)
    then have "\<not> write_ok sch cols row" by (simp add: write_ok_def)
    then show ?thesis using Inl Cons.IH rest by simp
  next
    case (Inr p)
    then have "listing_id p = listing_id row" by (rule bind_params_id)
    then show ?thesis using Inr Cons.IH rest by simp
  qed
qed

lemma written_filter: "written sch cols (filter (write_ok sch cols) rs) = written sch cols rs"
  by (induction rs) (auto simp: written_def write_ok_def split: sum.splits)

lemma length_filter_compl:
  "length (filter P xs) + length (filter (\<lambda>x. \<not> P x) xs) = length xs"
  by (induction xs) simp_all

lemma load_listings_data:
  "map data (table (load_listings sch clock df tbl))
     = (if df_empty df then map data tbl
        else fold upsert_data (written sch (columns df) (rows df)) (map data tbl))"
  by (simp add: load_listings_def load_rows_data)

lemma ids_of_data: "ids_of tbl = map listing_id (map data tbl)"
  by (simp add: ids_of_def comp_def)

lemma two_rows_simps:
  "columns two_rows = listing_columns"
  "rows two_rows = [sample_listing ''aaaa'' (Some 250000) None, sample_listing ''bbbb'' None None]"
  "\<not> df_empty two_rows"
  "df_empty empty_frame"
  by (simp_all add: two_rows_def df_empty_def listing_columns_def empty_frame_def)

lemma write_ok_two_rows:
  "write_ok sample_schema listing_columns (sample_listing ''aaaa'' (Some 250000) None)"
  "\<not> write_ok sample_schema listing_columns (sample_listing ''bbbb'' None None)"
  by (simp_all add: write_ok_def bind_params_def repeated_label_def bind_text_def row_get_def
      listing_columns_def sample_listing_def sample_schema_def)

lemma written_ids_two_rows:
  "listing_id ` {r \<in> set (rows two_rows). write_ok sample_schema (columns two_rows) r} = {Some ''aaaa''}"
proof -
  have "{r \<in> set (rows two_rows). write_ok sample_schema (columns two_rows) r}
          = {sample_listing ''aaaa'' (Some 250000) None}"
    using write_ok_two_rows by (auto simp add: two_rows_simps)
  then show ?thesis by (simp add: sample_listing_def)
qed

text \<open>
  C10. \<^verbatim>\<open>load_listings\<close> counts every record of a batch once: the loaded count is
  the number of records whose write succeeds, the failed count the number of the others,
  and on a batch that is not empty (\<^verbatim>\<open>df.empty\<close> false) the two add up to the number
  of input records. The loaded count never exceeds the input size, and an empty batch
  returns 0 (nothing is counted) and leaves the table as it was.
\<close>

theorem load_listings_accounting:
  "records_loaded (load_listings sch clock df tbl) + records_failed (load_listings sch clock df tbl)
     = (if df_empty df then 0 else length (rows df))
   \<and> records_loaded (load_listings sch clock df tbl)
     = (if df_empty df then 0 else length (filter (write_ok sch (columns df)) (rows df)))
   \<and> records_failed (load_listings sch clock df tbl)
     = (if df_empty df then 0 else length (filter (\<lambda>r. \<not> write_ok sch (columns df) r) (rows df)))
   \<and> records_loaded (load_listings sch clock df tbl) \<le> length (rows df)
   \<and> (df_empty df \<longrightarrow> table (load_listings sch clock df tbl) = tbl)"
  using length_filter_compl [of "write_ok sch (columns df)" "rows df"]
  by (simp add: load_listings_def load_rows_loaded load_rows_failed)

theorem load_listings_accounting_witness:
  "\<not> df_empty two_rows
   \<and> records_loaded (load_listings sample_schema (\<lambda>i. i) two_rows []) = 1
   \<and> records_failed (load_listings sample_schema (\<lambda>i. i) two_rows []) = 1
   \<and> df_empty empty_frame
   \<and> records_loaded (load_listings sample_schema (\<lambda>i. i) empty_frame []) = 0
   \<and> table (load_listings sample_schema (\<lambda>i. i) empty_frame []) = []"
  using load_listings_accounting [of sample_schema "\<lambda>i. i" two_rows "[]"]
        load_listings_accounting [of sample_schema "\<lambda>i. i" empty_frame "[]"]
  by (simp add: two_rows_simps write_ok_two_rows)

section \<open>The identifiers a load leaves in the table\<close>

lemma ids_upsert_data:
  "map listing_id (upsert_data p t)
     = (if listing_id p \<in> set (map listing_id t) then map listing_id t else map listing_id t @ [listing_id p])"
  by (simp add: upsert_data_def set_price_def comp_def)

lemma ids_fold_mono:
  "set (map listing_id t) \<subseteq> set (map listing_id (fold upsert_data ps t))"
proof (induction ps arbitrary: t)
  case Nil then show ?case by simp
next
  case (Cons p ps)
  have "set (map listing_id t) \<subseteq> set (map listing_id (upsert_data p t))"
    by (auto simp add: ids_upsert_data)
  also have "\<dots> \<subseteq> set (map listing_id (fold upsert_data ps (upsert_data p t)))"
    by (rule Cons.IH)
  finally show ?case by simp
qed

lemma ids_fold_written:
  "set (map listing_id ps) \<subseteq> set (map listing_id (fold upsert_data ps t))"
proof (induction ps arbitrary: t)
  case Nil then show ?case by simp
next
  case (Cons p ps)
  have "listing_id p \<in> set (map listing_id (upsert_data p t))"
    by (simp add: ids_upsert_data)
  then have "listing_id p \<in> set (map listing_id (fold upsert_data ps (upsert_data p t)))"
    using ids_fold_mono by blast
  with Cons.IH [of "upsert_data p t"] show ?case by simp
qed

section \<open>The frame condition of the upsert\<close>

lemma fold_all_present:
  "set (map listing_id ps) \<subseteq> set (map listing_id t)
     \<Longrightarrow> fold upsert_data ps t = map (reprice ps) t"
proof (induction ps arbitrary: t)
  case Nil then show ?case by (simp add: reprice_def)
next
  case (Cons p ps)
  from Cons.prems have in_t: "listing_id p \<in> set (map listing_id t)" by simp
  then have step: "upsert_data p t = map (set_price p) t"
    by (simp add: upsert_data_def)
  have ids: "map listing_id (map (set_price p) t) = map listing_id t"
    by (simp add: set_price_def comp_def)
  have "fold upsert_data ps (map (set_price p) t) = map (reprice ps) (map (set_price p) t)"
    by (rule Cons.IH) (use Cons.prems ids in simp)
  then show ?case by (simp add: step reprice_def comp_def)
qed

lemma frame_cond_refl: "frame_cond A t t"
  by (simp add: frame_cond_def untouched_fields_def)

lemma frame_cond_trans:
  assumes "frame_cond A t t'" "frame_cond B t' t''"
  shows "frame_cond (A \<union> B) t t''"
  unfolding frame_cond_def
proof (intro conjI allI impI)
  show "length t \<le> length t''" using assms by (simp add: frame_cond_def)
next
  fix i assume i: "i < length t"
  then have i': "i < length t'" using assms(1) by (simp add: frame_cond_def)
  have u1: "untouched_fields (data (t ! i)) (data (t' ! i))" using assms(1) i by (simp add: frame_cond_def)
  have u2: "untouched_fields (data (t' ! i)) (data (t'' ! i))" using assms(2) i' by (simp add: frame_cond_def)
  show "untouched_fields (data (t ! i)) (data (t'' ! i))"
    using u1 u2 by (simp add: untouched_fields_def)
  assume out: "listing_id (data (t ! i)) \<notin> A \<union> B"
  then have e1: "t' ! i = t ! i" using assms(1) i by (simp add: frame_cond_def)
  then have "listing_id (data (t' ! i)) \<notin> B" using out by simp
  then have "t'' ! i = t' ! i" using assms(2) i' by (simp add: frame_cond_def)
  with e1 show "t'' ! i = t ! i" by simp
qed

lemma frame_cond_upsert: "frame_cond {listing_id p} t (upsert sch now p t)"
  by (auto simp add: frame_cond_def upsert_def untouched_fields_def on_conflict_update_def nth_append)

lemma frame_cond_load_rows:
  "frame_cond (set (map listing_id (written sch cols rs))) (table st)
     (table (load_rows sch clock cols i rs st))"
proof (induction rs arbitrary: i st)
  case Nil
  then show ?case by (simp add: frame_cond_refl)
next
  case (Cons row rest)
  let ?st' = "(case write_listing sch (clock i) cols row (table st) of
          Inr tbl \<Rightarrow> st\<lparr>table := tbl, records_loaded := records_loaded st + 1\<rparr>
        | Inl e \<Rightarrow> st\<lparr>records_failed := records_failed st + 1\<rparr>)"
  have first: "frame_cond (case bind_params cols row of Inl e \<Rightarrow> {} | Inr p \<Rightarrow> if write_ok sch cols row then {listing_id p} else {})
                 (table st) (table ?st')"
    by (simp add: write_listing_cases frame_cond_refl frame_cond_upsert split: sum.splits)
  have rest: "frame_cond (set (map listing_id (written sch cols rest))) (table ?st')
                 (table (load_rows sch clock cols (Suc i) rest ?st'))"
    by (rule Cons.IH)
  show ?case
    using frame_cond_trans [OF first rest] by (simp only: ids_written_Cons load_rows.simps)
qed

lemma frame_cond_load_listings:
  "frame_cond (listing_id ` {r \<in> set (rows df). write_ok sch (columns df) r}) tbl
     (table (load_listings sch clock df tbl))"
proof (cases "df_empty df")
  case True
  then show ?thesis by (simp add: load_listings_def frame_cond_refl)
next
  case False
  have "set (map listing_id (written sch (columns df) (rows df)))
      = listing_id ` {r \<in> set (rows df). write_ok sch (columns df) r}"
    by (simp add: ids_written)
  then show ?thesis
    using False frame_cond_load_rows [of sch "columns df" "rows df" "\<lparr>table = tbl, records_loaded = 0, records_failed = 0\<rparr>" clock 0]
    by (simp add: load_listings_def)
qed

lemma length_load_listings_present:
  assumes "listing_id ` {r \<in> set (rows df). write_ok sch (columns df) r} \<subseteq> set (ids_of tbl)"
  shows "length (table (load_listings sch clock df tbl)) = length tbl"
proof -
  have sub: "set (map listing_id (written sch (columns df) (rows df))) \<subseteq> set (map listing_id (map data tbl))"
    using assms by (simp add: ids_written ids_of_data)
  have "length (map data (table (load_listings sch clock df tbl))) = length (map data tbl)"
    by (simp add: load_listings_data fold_all_present [OF sub])
  then show ?thesis by simp
qed

text \<open>
  C6. Whatever the batch, every row that the table held before \<^verbatim>\<open>load_listings\<close>
  is at its place afterwards with identifier, date, region, city, property_type, tax,
  sale_type, ownership, bedrooms, bathrooms and sqft as they were: only price and
  \<^verbatim>\<open>updated_at\<close> can differ. A row whose identifier no written record has is
  unchanged altogether, and a batch whose written records all have identifiers of the
  table adds no row.
\<close>

theorem load_listings_upsert_frame:
  "length tbl \<le> length (table (load_listings sch clock df tbl))
   \<and> (\<forall>i < length tbl.
        untouched_fields (data (tbl ! i)) (data (table (load_listings sch clock df tbl) ! i))
        \<and> (listing_id (data (tbl ! i)) \<notin> listing_id ` {r \<in> set (rows df). write_ok sch (columns df) r}
             \<longrightarrow> table (load_listings sch clock df tbl) ! i = tbl ! i))
   \<and> (listing_id ` {r \<in> set (rows df). write_ok sch (columns df) r} \<subseteq> set (ids_of tbl)
        \<longrightarrow> length (table (load_listings sch clock df tbl)) = length tbl)"
  using frame_cond_load_listings [of df sch tbl clock] length_load_listings_present [of df sch tbl clock]
  by (simp add: frame_cond_def)

theorem load_listings_upsert_frame_witness:
  "length stored_two = 2
   \<and> untouched_fields (data (stored_two ! 0)) (data (table (load_listings sample_schema (\<lambda>i. 40 + i) two_rows stored_two) ! 0))
   \<and> listing_id (data (stored_two ! 1)) \<notin> listing_id ` {r \<in> set (rows two_rows). write_ok sample_schema (columns two_rows) r}
   \<and> table (load_listings sample_schema (\<lambda>i. 40 + i) two_rows stored_two) ! 1 = stored_two ! 1
   \<and> listing_id ` {r \<in> set (rows two_rows). write_ok sample_schema (columns two_rows) r} \<subseteq> set (ids_of stored_two)
   \<and> length (table (load_listings sample_schema (\<lambda>i. 40 + i) two_rows stored_two)) = 2"
proof -
  have len: "length stored_two = 2" by (simp add: stored_two_def)
  have other: "listing_id (data (stored_two ! 1)) \<notin> listing_id ` {r \<in> set (rows two_rows). write_ok sample_schema (columns two_rows) r}"
    by (simp add: written_ids_two_rows stored_two_def sample_listing_def)
  have sub: "listing_id ` {r \<in> set (rows two_rows). write_ok sample_schema (columns two_rows) r} \<subseteq> set (ids_of stored_two)"
    by (simp add: written_ids_two_rows stored_two_def ids_of_def sample_listing_def)
  have i0: "0 < length stored_two" and i1: "1 < length stored_two" using len by simp_all
  show ?thesis
    using load_listings_upsert_frame [of stored_two sample_schema "\<lambda>i. 40 + i" two_rows] len other sub i0 i1
    by metis
qed

section \<open>Replaying a batch\<close>

lemma reprice_id [simp]: "listing_id (reprice ps x) = listing_id x"
  unfolding reprice_def by (induction ps arbitrary: x) (simp_all add: set_price_def)

lemma reprice_price_upd: "(reprice ps x)\<lparr>price := y\<rparr> = x\<lparr>price := y\<rparr>"
  unfolding reprice_def by (induction ps arbitrary: x) (simp_all add: set_price_def)

lemma reprice_snoc: "reprice (qs @ [p]) x = set_price p (reprice qs x)"
  by (simp add: reprice_def)

lemma set_price_reprice_hit:
  "listing_id x = listing_id p \<Longrightarrow> set_price p (reprice qs (set_price p x)) = set_price p x"
proof -
  assume h: "listing_id x = listing_id p"
  have "set_price p (reprice qs (set_price p x)) = (reprice qs (x\<lparr>price := price p\<rparr>))\<lparr>price := price p\<rparr>"
    using h by (simp add: set_price_def)
  also have "\<dots> = x\<lparr>price := price p\<rparr>"
    by (simp add: reprice_price_upd)
  finally show ?thesis using h by (simp add: set_price_def)
qed

lemma fold_fixed: "x \<in> set (fold upsert_data ps t) \<Longrightarrow> reprice ps x = x"
proof (induction ps arbitrary: x rule: rev_induct)
  case Nil
  then show ?case by (simp add: reprice_def)
next
  case (snoc p qs)
  let ?s = "fold upsert_data qs t"
  from snoc.prems have mem: "x \<in> set (upsert_data p ?s)" by simp
  show ?case
  proof (cases "listing_id p \<in> set (map listing_id ?s)")
    case True
    with mem obtain y where y: "y \<in> set ?s" "x = set_price p y"
      by (auto simp: upsert_data_def)
    show ?thesis
    proof (cases "listing_id y = listing_id p")
      case True
      then show ?thesis using y by (simp add: reprice_snoc set_price_reprice_hit)
    next
      case False
      then have "x = y" using y by (simp add: set_price_def)
      moreover have "reprice qs y = y" using snoc.IH y by blast
      ultimately show ?thesis using False by (simp add: reprice_snoc set_price_def)
    qed
  next
    case False
    with mem have "x \<in> set ?s \<or> x = p" by (auto simp: upsert_data_def)
    then show ?thesis
    proof
      assume xs: "x \<in> set ?s"
      then have "listing_id x \<in> set (map listing_id ?s)" by simp
      then have "listing_id x \<noteq> listing_id p" using False by metis
      moreover have "reprice qs x = x" using snoc.IH xs by blast
      ultimately show ?thesis by (simp add: reprice_snoc set_price_def)
    next
      assume "x = p"
      then show ?thesis
        using reprice_price_upd [where ps=qs and x=p and y="price p"] by (simp add: reprice_snoc set_price_def)
    qed
  qed
qed

lemma fold_upsert_data_idem:
  "fold upsert_data ps (fold upsert_data ps t) = fold upsert_data ps t"
proof -
  have "fold upsert_data ps (fold upsert_data ps t) = map (reprice ps) (fold upsert_data ps t)"
    by (rule fold_all_present) (rule ids_fold_written)
  also have "\<dots> = fold upsert_data ps t"
    by (rule map_idI) (rule fold_fixed)
  finally show ?thesis .
qed

lemma distinct_upsert_data:
  "distinct (map listing_id t) \<Longrightarrow> distinct (map listing_id (upsert_data p t))"
  by (simp add: ids_upsert_data)

lemma distinct_fold_upsert_data:
  "distinct (map listing_id t) \<Longrightarrow> distinct (map listing_id (fold upsert_data ps t))"
  by (induction ps arbitrary: t) (simp_all add: distinct_upsert_data)

text \<open>
  C1, as amended. Running \<^verbatim>\<open>load_listings\<close> on a batch a second time, at any later
  clock, leaves the same rows in the same order with the same values in the twelve columns
  of the statement: the row count is the same, no identifier is duplicated, and the same
  number of records is loaded. Only \<^verbatim>\<open>updated_at\<close> is not covered.
\<close>

theorem load_listings_replay:
  "map data (table (load_listings sch clock2 df (table (load_listings sch clock1 df tbl))))
     = map data (table (load_listings sch clock1 df tbl))
   \<and> length (table (load_listings sch clock2 df (table (load_listings sch clock1 df tbl))))
     = length (table (load_listings sch clock1 df tbl))
   \<and> (distinct (ids_of tbl) \<longrightarrow>
        distinct (ids_of (table (load_listings sch clock2 df (table (load_listings sch clock1 df tbl))))))
   \<and> records_loaded (load_listings sch clock2 df (table (load_listings sch clock1 df tbl)))
     = records_loaded (load_listings sch clock1 df tbl)"
proof -
  let ?one = "load_listings sch clock1 df tbl"
  let ?two = "load_listings sch clock2 df (table ?one)"
  have same: "map data (table ?two) = map data (table ?one)"
    by (simp add: load_listings_data fold_upsert_data_idem)
  then have len: "length (table ?two) = length (table ?one)"
    using map_eq_imp_length_eq by blast
  have dist: "distinct (ids_of tbl) \<longrightarrow> distinct (ids_of (table ?two))"
    by (simp add: ids_of_data same load_listings_data distinct_fold_upsert_data)
  have cnt: "records_loaded ?two = records_loaded ?one"
    by (simp add: load_listings_def load_rows_loaded)
  from same len dist cnt show ?thesis by blast
qed

theorem load_listings_replay_witness:
  "distinct (ids_of stored_two)
   \<and> map data (table (load_listings sample_schema (\<lambda>i. 50 + i) two_rows
                       (table (load_listings sample_schema (\<lambda>i. 40 + i) two_rows stored_two))))
     = map data (table (load_listings sample_schema (\<lambda>i. 40 + i) two_rows stored_two))
   \<and> distinct (ids_of (table (load_listings sample_schema (\<lambda>i. 50 + i) two_rows
                       (table (load_listings sample_schema (\<lambda>i. 40 + i) two_rows stored_two)))))"
proof -
  have d: "distinct (ids_of stored_two)"
    by (simp add: stored_two_def ids_of_def sample_listing_def)
  show ?thesis
    using load_listings_replay [of sample_schema "\<lambda>i. 50 + i" two_rows "\<lambda>i. 40 + i" stored_two] d
    by blast
qed

text \<open>
  C1, as stated, fails: the replay writes \<^verbatim>\<open>updated_at = CURRENT_TIMESTAMP\<close> into
  every row it hits, so the table after two runs is not the table after one run.
\<close>

theorem load_listings_replay_counterexample:
  "table (load_listings sample_schema (\<lambda>i. 50 + i) two_rows
            (table (load_listings sample_schema (\<lambda>i. 40 + i) two_rows stored_two)))
     \<noteq> table (load_listings sample_schema (\<lambda>i. 40 + i) two_rows stored_two)"
  by (simp add: load_listings_def df_empty_def two_rows_def listing_columns_def write_listing_def
      bind_params_def repeated_label_def bind_text_def row_get_def execute_def upsert_def
      on_conflict_update_def sample_listing_def sample_schema_def stored_two_def)

section \<open>Failure isolation\<close>

lemma in_written:
  "r \<in> set rs \<Longrightarrow> write_ok sch cols r \<Longrightarrow>
     \<exists>p. bind_params cols r = Inr p \<and> p \<in> set (written sch cols rs)"
proof (induction rs)
  case Nil
  then show ?case by simp
next
  case (Cons a rs)
  have w: "written sch cols (a # rs)
      = (case bind_params cols a of Inl e \<Rightarrow> [] | Inr p \<Rightarrow> if write_ok sch cols a then [p] else [])
        @ written sch cols rs"
    by (simp add: written_def)
  show ?case
  proof (cases "r = a")
    case True
    with Cons.prems(2) obtain p where "bind_params cols a = Inr p"
      by (auto simp: write_ok_def split: sum.splits)
    then show ?thesis using True Cons.prems(2) w by simp
  next
    case False
    with Cons obtain p where "bind_params cols r = Inr p" "p \<in> set (written sch cols rs)" by auto
    then show ?thesis using w by auto
  qed
qed

lemma bind_params_values:
  "bind_params cols r = Inr p \<Longrightarrow>
     listing_id p = listing_id r \<and> price p = price r \<and> date p = date r \<and>
     region p = bind_text (region r)"
  by (auto simp: bind_params_def split: if_splits)

lemma reprice_find:
  "reprice W x =
     (case find (\<lambda>q. listing_id q = listing_id x) (rev W) of
        None \<Rightarrow> x
      | Some q \<Rightarrow> x\<lparr>price := price q\<rparr>)"
proof (induction W rule: rev_induct)
  case Nil
  then show ?case by (simp add: reprice_def)
next
  case (snoc p W)
  show ?case
  proof (cases "listing_id p = listing_id x")
    case True
    then have "reprice (W @ [p]) x = (reprice W x)\<lparr>price := price p\<rparr>"
      by (simp add: reprice_snoc set_price_def)
    then show ?thesis using True by (simp add: reprice_price_upd)
  next
    case False
    then have "reprice (W @ [p]) x = reprice W x"
      by (simp add: reprice_snoc set_price_def)
    then show ?thesis using False snoc.IH by simp
  qed
qed

lemma fold_old:
  "x \<in> set (fold upsert_data W T) \<Longrightarrow> listing_id x \<in> set (map listing_id T) \<Longrightarrow>
     \<exists>y \<in> set T. listing_id y = listing_id x \<and> x = y\<lparr>price := price x\<rparr>"
proof (induction W arbitrary: T)
  case Nil
  then show ?case by auto
next
  case (Cons p W)
  from Cons.prems(2) have "listing_id x \<in> set (map listing_id (upsert_data p T))"
    by (auto simp: ids_upsert_data)
  with Cons.IH [of "upsert_data p T"] Cons.prems(1)
  obtain y' where y': "y' \<in> set (upsert_data p T)" "listing_id y' = listing_id x"
      "x = y'\<lparr>price := price x\<rparr>"
    by auto
  show ?case
  proof (cases "listing_id p \<in> set (map listing_id T)")
    case True
    with y'(1) obtain y where y: "y \<in> set T" "y' = set_price p y"
      by (auto simp: upsert_data_def)
    have "listing_id y = listing_id x" using y y'(2) by (simp add: set_price_def split: if_splits)
    moreover have "x = y\<lparr>price := price x\<rparr>"
      using y(2) y'(3) by (cases "listing_id y = listing_id p") (simp_all add: set_price_def)
    ultimately show ?thesis using y(1) by blast
  next
    case False
    with y'(1) have "y' \<in> set T \<or> y' = p" by (auto simp: upsert_data_def)
    moreover have "y' \<noteq> p" using False y'(2) Cons.prems(2) by metis
    ultimately show ?thesis using y'(2,3) by blast
  qed
qed

lemma fold_new:
  "x \<in> set (fold upsert_data W T) \<Longrightarrow> listing_id x \<notin> set (map listing_id T) \<Longrightarrow>
     \<exists>q. find (\<lambda>q. listing_id q = listing_id x) W = Some q \<and> x = q\<lparr>price := price x\<rparr>"
proof (induction W arbitrary: T)
  case Nil
  then show ?case by auto
next
  case (Cons p W)
  show ?case
  proof (cases "listing_id x = listing_id p")
    case True
    then have notin: "listing_id p \<notin> set (map listing_id T)" using Cons.prems(2) by simp
    then have up: "upsert_data p T = T @ [p]" by (simp add: upsert_data_def)
    have "listing_id x \<in> set (map listing_id (T @ [p]))" using True by simp
    with fold_old [of x W "T @ [p]"] Cons.prems(1) up
    obtain y where y: "y \<in> set (T @ [p])" "listing_id y = listing_id x" "x = y\<lparr>price := price x\<rparr>"
      by auto
    have "y \<notin> set T" using y(2) Cons.prems(2) by (metis image_eqI set_map)
    then have "y = p" using y(1) by simp
    then show ?thesis using True y(3) by simp
  next
    case False
    then have "listing_id x \<notin> set (map listing_id (upsert_data p T))"
      using Cons.prems(2) by (auto simp: ids_upsert_data)
    with Cons.IH [of "upsert_data p T"] Cons.prems(1)
    obtain q where "find (\<lambda>q. listing_id q = listing_id x) W = Some q" "x = q\<lparr>price := price x\<rparr>"
      by auto
    then show ?thesis using False by auto
  qed
qed

lemma find_single:
  "p \<in> set W \<Longrightarrow> P p \<Longrightarrow> length (filter P W) = 1 \<Longrightarrow> find P W = Some p \<and> find P (rev W) = Some p"
proof -
  assume p: "p \<in> set W" "P p" and one: "length (filter P W) = 1"
  from one obtain z where z: "filter P W = [z]"
    by (cases "filter P W") auto
  have "p \<in> set (filter P W)" using p by simp
  then have zp: "z = p" using z by simp
  have f1: "\<And>xs. find P xs = (case filter P xs of [] \<Rightarrow> None | a # _ \<Rightarrow> Some a)"
  proof -
    fix xs show "find P xs = (case filter P xs of [] \<Rightarrow> None | a # _ \<Rightarrow> Some a)"
      by (induction xs) auto
  qed
  have "filter P (rev W) = [z]" using z by (simp add: rev_filter [symmetric])
  then show ?thesis using z zp by (simp add: f1)
qed

lemma stored_values:
  fixes T :: "listing list" and sch :: schema and cols :: "string list" and rs :: "listing list"
  assumes r: "r \<in> set rs" and ok: "write_ok sch cols r"
  defines "W \<equiv> written sch cols rs"
  defines "F \<equiv> fold upsert_data W T"
  shows "\<exists>p qf ql x. bind_params cols r = Inr p
      \<and> find (\<lambda>q. listing_id q = listing_id r) W = Some qf
      \<and> find (\<lambda>q. listing_id q = listing_id r) (rev W) = Some ql
      \<and> x \<in> set F
      \<and> (if listing_id r \<in> set (map listing_id T)
          then \<exists>old \<in> set T. listing_id old = listing_id r \<and> x = old\<lparr>price := price ql\<rparr>
          else x = qf\<lparr>price := price ql\<rparr>)
      \<and> (listing_id r \<notin> set (map listing_id T) \<and>
          length (filter (\<lambda>q. listing_id q = listing_id r) W) = 1 \<longrightarrow> x = p)"
proof -
  from in_written [OF r ok] obtain p where p: "bind_params cols r = Inr p" "p \<in> set W"
    by (auto simp: W_def)
  have pid: "listing_id p = listing_id r" using p(1) by (rule bind_params_id)
  have "find (\<lambda>q. listing_id q = listing_id r) W \<noteq> None"
    using p(2) pid by (auto simp: find_None_iff)
  then obtain qf where qf: "find (\<lambda>q. listing_id q = listing_id r) W = Some qf" by auto
  have "find (\<lambda>q. listing_id q = listing_id r) (rev W) \<noteq> None"
    using p(2) pid by (auto simp: find_None_iff)
  then obtain ql where ql: "find (\<lambda>q. listing_id q = listing_id r) (rev W) = Some ql" by auto
  have "listing_id r \<in> set (map listing_id W)" using p(2) pid by (metis image_eqI set_map)
  then have "listing_id r \<in> set (map listing_id F)"
    using ids_fold_written [of W T] by (auto simp: F_def)
  then obtain x where x: "x \<in> set F" "listing_id x = listing_id r" by auto
  have "reprice W x = x" using x(1) by (simp add: F_def fold_fixed)
  then have px: "x = x\<lparr>price := price ql\<rparr>"
    using reprice_find [of W x] ql x(2) by simp
  have branch: "if listing_id r \<in> set (map listing_id T)
          then \<exists>old \<in> set T. listing_id old = listing_id r \<and> x = old\<lparr>price := price ql\<rparr>
          else x = qf\<lparr>price := price ql\<rparr>"
  proof (cases "listing_id r \<in> set (map listing_id T)")
    case True
    with fold_old [of x W T] x obtain y where y: "y \<in> set T" "listing_id y = listing_id x"
        "x = y\<lparr>price := price x\<rparr>"
      by (auto simp: F_def)
    have "x = y\<lparr>price := price ql\<rparr>"
      using px y(3) by (metis listing.surjective listing.update_convs(6) listing.select_convs(6))
    then show ?thesis using True y x(2) by auto
  next
    case False
    with fold_new [of x W T] x obtain q where q: "find (\<lambda>q. listing_id q = listing_id x) W = Some q"
        "x = q\<lparr>price := price x\<rparr>"
      by (auto simp: F_def)
    have "q = qf" using q(1) qf x(2) by simp
    moreover have "x = q\<lparr>price := price ql\<rparr>"
      using px q(2) by (metis listing.surjective listing.update_convs(6) listing.select_convs(6))
    ultimately show ?thesis using False by simp
  qed
  have single: "listing_id r \<notin> set (map listing_id T) \<and>
          length (filter (\<lambda>q. listing_id q = listing_id r) W) = 1 \<longrightarrow> x = p"
  proof
    assume h: "listing_id r \<notin> set (map listing_id T) \<and>
          length (filter (\<lambda>q. listing_id q = listing_id r) W) = 1"
    from find_single [of p W "\<lambda>q. listing_id q = listing_id r"] p(2) pid h
    have "qf = p" "ql = p" using qf ql by simp_all
    then show "x = p" using branch h by simp
  qed
  from p(1) qf ql x(1) branch single show ?thesis by blast
qed

lemma load_listings_one_failure:
  assumes one: "length (filter (\<lambda>r. \<not> write_ok sch (columns df) r) (rows df)) = 1"
      and ne: "\<not> df_empty df"
  shows "records_failed (load_listings sch clock df tbl) = 1
    \<and> records_loaded (load_listings sch clock df tbl) = length (rows df) - 1
    \<and> (\<forall>r \<in> set (rows df). write_ok sch (columns df) r \<longrightarrow>
          listing_id r \<in> set (ids_of (table (load_listings sch clock df tbl))))
    \<and> map data (table (load_listings sch clock df tbl))
        = map data (table (load_listings sch clock'
            (df\<lparr>rows := filter (write_ok sch (columns df)) (rows df)\<rparr>) tbl))"
proof -
  let ?res = "load_listings sch clock df tbl"
  have failed: "records_failed ?res = 1"
    using one ne by (simp add: load_listings_def load_rows_failed)
  have loaded: "records_loaded ?res = length (rows df) - 1"
    using one ne length_filter_compl [of "write_ok sch (columns df)" "rows df"]
    by (simp add: load_listings_def load_rows_loaded)
  have ids: "set (ids_of (table ?res)) = set (map listing_id (map data (table ?res)))"
    by (simp add: ids_of_def comp_def)
  have kept: "\<forall>r \<in> set (rows df). write_ok sch (columns df) r \<longrightarrow> listing_id r \<in> set (ids_of (table ?res))"
  proof (intro ballI impI)
    fix r assume r: "r \<in> set (rows df)" "write_ok sch (columns df) r"
    then have "listing_id r \<in> set (map listing_id (written sch (columns df) (rows df)))"
      by (simp add: ids_written)
    then have "listing_id r \<in> set (map listing_id (fold upsert_data (written sch (columns df) (rows df)) (map data tbl)))"
      using ids_fold_written by blast
    then show "listing_id r \<in> set (ids_of (table ?res))"
      using ne by (simp only: ids load_listings_data if_False)
  qed
  have same: "map data (table ?res)
        = map data (table (load_listings sch clock'
            (df\<lparr>rows := filter (write_ok sch (columns df)) (rows df)\<rparr>) tbl))"
  proof (cases "filter (write_ok sch (columns df)) (rows df) = []")
    case True
    then have "written sch (columns df) (rows df) = []"
      using written_filter [of sch "columns df" "rows df"] by (simp add: written_def)
    then show ?thesis using True ne by (simp add: load_listings_data df_empty_def)
  next
    case False
    then show ?thesis using ne by (simp add: load_listings_data df_empty_def written_filter)
  qed
  from failed loaded kept same show ?thesis by blast
qed

lemma load_listings_stored_values:
  assumes ne: "\<not> df_empty df" and r: "r \<in> set (rows df)" and ok: "write_ok sch (columns df) r"
  shows "\<exists>p qf ql row.
            bind_params (columns df) r = Inr p
          \<and> listing_id p = listing_id r \<and> price p = price r \<and> date p = date r
          \<and> region p = bind_text (region r)
          \<and> find (\<lambda>q. listing_id q = listing_id r) (written sch (columns df) (rows df)) = Some qf
          \<and> find (\<lambda>q. listing_id q = listing_id r) (rev (written sch (columns df) (rows df))) = Some ql
          \<and> row \<in> set (table (load_listings sch clock df tbl))
          \<and> (if listing_id r \<in> set (ids_of tbl)
              then \<exists>old \<in> set tbl. listing_id (data old) = listing_id r \<and>
                     data row = (data old)\<lparr>price := price ql\<rparr>
              else data row = qf\<lparr>price := price ql\<rparr>)
          \<and> (listing_id r \<notin> set (ids_of tbl) \<and>
              length (filter (\<lambda>q. listing_id q = listing_id r)
                        (written sch (columns df) (rows df))) = 1 \<longrightarrow> data row = p)"
proof -
  let ?W = "written sch (columns df) (rows df)"
  let ?res = "load_listings sch clock df tbl"
  from stored_values [OF r ok, of "map data tbl"]
  obtain p qf ql x where s: "bind_params (columns df) r = Inr p"
      "find (\<lambda>q. listing_id q = listing_id r) ?W = Some qf"
      "find (\<lambda>q. listing_id q = listing_id r) (rev ?W) = Some ql"
      "x \<in> set (fold upsert_data ?W (map data tbl))"
      "if listing_id r \<in> set (map listing_id (map data tbl))
          then \<exists>old \<in> set (map data tbl). listing_id old = listing_id r \<and> x = old\<lparr>price := price ql\<rparr>
          else x = qf\<lparr>price := price ql\<rparr>"
      "listing_id r \<notin> set (map listing_id (map data tbl)) \<and>
          length (filter (\<lambda>q. listing_id q = listing_id r) ?W) = 1 \<longrightarrow> x = p"
    by blast
  have "x \<in> set (map data (table ?res))"
    using s(4) ne by (simp only: load_listings_data if_False)
  then obtain row where row: "row \<in> set (table ?res)" "data row = x" by auto
  have ids: "set (ids_of tbl) = set (map listing_id (map data tbl))" by (simp add: ids_of_data)
  have branch: "if listing_id r \<in> set (ids_of tbl)
              then \<exists>old \<in> set tbl. listing_id (data old) = listing_id r \<and>
                     data row = (data old)\<lparr>price := price ql\<rparr>
              else data row = qf\<lparr>price := price ql\<rparr>"
    using s(5) row(2) unfolding ids by auto
  have single: "listing_id r \<notin> set (ids_of tbl) \<and>
              length (filter (\<lambda>q. listing_id q = listing_id r) ?W) = 1 \<longrightarrow> data row = p"
    using s(6) row(2) unfolding ids by simp
  from bind_params_values [OF s(1)] s(1,2,3) row(1) branch single
  show ?thesis by blast
qed

text \<open>
  C2. In a batch of N records of which exactly one fails to write, \<^verbatim>\<open>load_listings\<close>
  returns (it is a total function: the \<^verbatim>\<open>try\<close> catches every exception of a record)
  with a failed count of 1 and a loaded count of N - 1. Every other record is persisted:
  it binds its parameters, and the table afterwards holds a row with its identifier whose
  price is that of the last written record of the batch with this identifier and whose
  other columns are those of the first such record or, where the table held the identifier
  before, those of the row it held. A record that is the only one of its identifier, new
  to the table, is stored with exactly the values it binds. The columns of the table are
  those that loading the batch without the failing record gives.
\<close>

theorem load_listings_failure_isolation:
  assumes one: "length (filter (\<lambda>r. \<not> write_ok sch (columns df) r) (rows df)) = 1"
      and ne: "\<not> df_empty df"
  shows "records_failed (load_listings sch clock df tbl) = 1
    \<and> records_loaded (load_listings sch clock df tbl) = length (rows df) - 1
    \<and> (\<forall>r \<in> set (rows df). write_ok sch (columns df) r \<longrightarrow>
          listing_id r \<in> set (ids_of (table (load_listings sch clock df tbl))))
    \<and> map data (table (load_listings sch clock df tbl))
        = map data (table (load_listings sch clock'
            (df\<lparr>rows := filter (write_ok sch (columns df)) (rows df)\<rparr>) tbl))
    \<and> (\<forall>r \<in> set (rows df). write_ok sch (columns df) r \<longrightarrow>
          (\<exists>p qf ql row.
              bind_params (columns df) r = Inr p
            \<and> listing_id p = listing_id r \<and> price p = price r \<and> date p = date r
            \<and> region p = bind_text (region r)
            \<and> find (\<lambda>q. listing_id q = listing_id r) (written sch (columns df) (rows df)) = Some qf
            \<and> find (\<lambda>q. listing_id q = listing_id r) (rev (written sch (columns df) (rows df))) = Some ql
            \<and> row \<in> set (table (load_listings sch clock df tbl))
            \<and> (if listing_id r \<in> set (ids_of tbl)
                then \<exists>old \<in> set tbl. listing_id (data old) = listing_id r \<and>
                       data row = (data old)\<lparr>price := price ql\<rparr>
                else data row = qf\<lparr>price := price ql\<rparr>)
            \<and> (listing_id r \<notin> set (ids_of tbl) \<and>
                length (filter (\<lambda>q. listing_id q = listing_id r)
                          (written sch (columns df) (rows df))) = 1 \<longrightarrow> data row = p)))"
proof -
  have counts: "records_failed (load_listings sch clock df tbl) = 1
    \<and> records_loaded (load_listings sch clock df tbl) = length (rows df) - 1
    \<and> (\<forall>r \<in> set (rows df). write_ok sch (columns df) r \<longrightarrow>
          listing_id r \<in> set (ids_of (table (load_listings sch clock df tbl))))
    \<and> map data (table (load_listings sch clock df tbl))
        = map data (table (load_listings sch clock'
            (df\<lparr>rows := filter (write_ok sch (columns df)) (rows df)\<rparr>) tbl))"
    using one ne by (rule load_listings_one_failure)
  have vals: "\<forall>r \<in> set (rows df). write_ok sch (columns df) r \<longrightarrow>
          (\<exists>p qf ql row.
              bind_params (columns df) r = Inr p
            \<and> listing_id p = listing_id r \<and> price p = price r \<and> date p = date r
            \<and> region p = bind_text (region r)
            \<and> find (\<lambda>q. listing_id q = listing_id r) (written sch (columns df) (rows df)) = Some qf
            \<and> find (\<lambda>q. listing_id q = listing_id r) (rev (written sch (columns df) (rows df))) = Some ql
            \<and> row \<in> set (table (load_listings sch clock df tbl))
            \<and> (if listing_id r \<in> set (ids_of tbl)
                then \<exists>old \<in> set tbl. listing_id (data old) = listing_id r \<and>
                       data row = (data old)\<lparr>price := price ql\<rparr>
                else data row = qf\<lparr>price := price ql\<rparr>)
            \<and> (listing_id r \<notin> set (ids_of tbl) \<and>
                length (filter (\<lambda>q. listing_id q = listing_id r)
                          (written sch (columns df) (rows df))) = 1 \<longrightarrow> data row = p))"
    using load_listings_stored_values [OF ne] by blast
  from counts vals show ?thesis by (intro conjI) blast+
qed

lemma bind_params_sample:
  "bind_params listing_columns (sample_listing ''aaaa'' (Some 250000) None)
     = Inr (sample_listing ''aaaa'' (Some 250000) None)"
  by (simp add: bind_params_def repeated_label_def bind_text_def row_get_def
      listing_columns_def sample_listing_def)

lemma written_two_rows:
  "written sample_schema (columns two_rows) (rows two_rows) = [sample_listing ''aaaa'' (Some 250000) None]"
proof -
  have skip: "(case bind_params listing_columns (sample_listing ''bbbb'' None None) of
                 Inl e \<Rightarrow> []
               | Inr p \<Rightarrow> if write_ok sample_schema listing_columns (sample_listing ''bbbb'' None None)
                          then [p] else []) = []"
    using write_ok_two_rows(2) by (simp split: sum.splits)
  show ?thesis
    using write_ok_two_rows(1) skip
    by (simp add: written_def two_rows_simps bind_params_sample)
qed

theorem load_listings_failure_isolation_witness:
  "length (filter (\<lambda>r. \<not> write_ok sample_schema (columns two_rows) r) (rows two_rows)) = 1
   \<and> \<not> df_empty two_rows
   \<and> records_failed (load_listings sample_schema (\<lambda>i. i) two_rows []) = 1
   \<and> records_loaded (load_listings sample_schema (\<lambda>i. i) two_rows []) = 1
   \<and> (\<exists>row \<in> set (table (load_listings sample_schema (\<lambda>i. i) two_rows [])).
         data row = sample_listing ''aaaa'' (Some 250000) None)"
proof -
  let ?r = "sample_listing ''aaaa'' (Some 250000) None"
  let ?res = "load_listings sample_schema (\<lambda>i. i) two_rows []"
  have one: "length (filter (\<lambda>r. \<not> write_ok sample_schema (columns two_rows) r) (rows two_rows)) = 1"
    by (simp add: two_rows_simps write_ok_two_rows)
  have ne: "\<not> df_empty two_rows"
    by (simp add: two_rows_simps)
  have ok: "write_ok sample_schema (columns two_rows) ?r"
    by (simp add: two_rows_simps write_ok_two_rows)
  have mem: "?r \<in> set (rows two_rows)"
    by (simp add: two_rows_simps)
  have fresh: "listing_id ?r \<notin> set (ids_of [])" by (simp add: ids_of_def)
  have single: "length (filter (\<lambda>q. listing_id q = listing_id ?r)
                          (written sample_schema (columns two_rows) (rows two_rows))) = 1"
    by (simp add: written_two_rows)
  have bind: "bind_params (columns two_rows) ?r = Inr ?r"
    by (simp add: two_rows_simps bind_params_sample)
  note th = load_listings_failure_isolation [OF one ne, of "\<lambda>i. i" "[]" "\<lambda>i. i"]
  have failed: "records_failed ?res = 1" by (rule th [THEN conjunct1])
  have loaded: "records_loaded ?res = length (rows two_rows) - 1"
    by (rule th [THEN conjunct2, THEN conjunct1])
  note vals = th [THEN conjunct2, THEN conjunct2, THEN conjunct2, THEN conjunct2, rule_format, OF mem ok]
  from vals obtain p row where pr: "bind_params (columns two_rows) ?r = Inr p"
      "row \<in> set (table ?res)"
      "listing_id ?r \<notin> set (ids_of []) \<and>
                length (filter (\<lambda>q. listing_id q = listing_id ?r)
                          (written sample_schema (columns two_rows) (rows two_rows))) = 1 \<longrightarrow> data row = p"
    by (elim exE conjE) blast
  from pr(1) bind have "p = ?r" by simp
  with pr(3) fresh single have "data row = ?r" by blast
  with pr(2) have stored: "\<exists>row \<in> set (table ?res). data row = ?r" by blast
  from one ne failed loaded stored show ?thesis by (simp add: two_rows_simps)
qed

section \<open>Properties of the adapters: the records they emit\<close>

lemma date_cols_eq:
  "filter (\<lambda>c. c \<notin> set (filter (\<lambda>c. c \<in> set cols) zillow_id_vars)) cols
     = filter (\<lambda>c. c \<notin> set zillow_id_vars) cols"
  by (rule filter_cong) auto

lemma regionid_present:
  "''RegionID'' \<in> set (filter (\<lambda>c. c \<in> set cols) zillow_id_vars) \<longleftrightarrow> ''RegionID'' \<in> set cols"
  by (auto simp add: zillow_id_vars_def)

lemma rows_empty_frame [simp]: "rows empty_frame = []"
  by (simp add: empty_frame_def)


lemma set_drop_duplicates: "set (drop_duplicates seen xs) \<subseteq> set xs"
  by (induction xs arbitrary: seen) auto

lemma drop_duplicates_fresh:
  "listing_id ` set (drop_duplicates seen xs) \<inter> set seen = {}"
proof (induction xs arbitrary: seen)
  case Nil
  then show ?case by simp
next
  case (Cons x xs)
  show ?case
  proof (cases "listing_id x \<in> set seen")
    case True
    then show ?thesis using Cons.IH [of seen] by simp
  next
    case False
    then show ?thesis using Cons.IH [of "listing_id x # seen"] by auto
  qed
qed

lemma distinct_drop_duplicates: "distinct (map listing_id (drop_duplicates seen xs))"
proof (induction xs arbitrary: seen)
  case Nil
  then show ?case by simp
next
  case (Cons x xs)
  have "listing_id x \<notin> listing_id ` set (drop_duplicates (listing_id x # seen) xs)"
    using drop_duplicates_fresh [of "listing_id x # seen" xs] by auto
  then show ?case using Cons.IH by simp
qed

lemma clean_zillow_data_unfold:
  "clean_zillow_data md5 td df =
     (if zrows df = [] \<or> zcolumns df = [] then empty_frame
      else case parse_dates td (melt (zillow_date_cols df) (zrows df)) of
             Inl e \<Rightarrow> empty_frame
           | Inr dated \<Rightarrow>
               if dropna_price dated = []
               then \<lparr>columns = filter (\<lambda>c. c \<in> set (zillow_clean_columns (zillow_present df))) listing_columns,
                     rows = []\<rparr>
               else if ''RegionID'' \<in> set (zcolumns df)
               then \<lparr>columns = filter (\<lambda>c. c \<in> set (zillow_clean_columns (zillow_present df))) listing_columns,
                     rows = map (zillow_listing md5 (zillow_present df)) (dropna_price dated)\<rparr>
               else empty_frame)"
  unfolding clean_zillow_data_def Let_def date_cols_eq regionid_present zillow_date_cols_def
    zillow_present_def
  by (rule refl)

lemma melt_mem:
  "(r, c, v) \<in> set (melt cs rs) \<Longrightarrow> r \<in> set rs \<and> c \<in> set cs \<and> v = value_at r c"
  by (auto simp: melt_def)

lemma parse_dates_mem:
  "parse_dates td xs = Inr dated \<Longrightarrow> (r, d, v) \<in> set dated \<Longrightarrow> \<exists>c. (r, c, v) \<in> set xs"
proof -
  assume p: "parse_dates td xs = Inr dated" and m: "(r, d, v) \<in> set dated"
  from p obtain ds where ds: "dated = map (\<lambda>(x, d). (fst x, d, snd (snd x))) (zip xs ds)"
    by (auto simp: parse_dates_def split: sum.splits if_splits)
  with m obtain x where "x \<in> set xs" "fst x = r" "snd (snd x) = v"
    by (auto dest: set_zip_leftD)
  then have "(r, fst (snd x), v) \<in> set xs" by (metis prod.collapse)
  then show ?thesis by blast
qed

lemma dropna_price_mem: "(r, d, p) \<in> set (dropna_price xs) \<longleftrightarrow> (r, d, Some p) \<in> set xs"
  by (induction xs rule: dropna_price.induct) auto

lemma zillow_rows_shape:
  assumes "x \<in> set (rows (clean_zillow_data md5 td df))"
  shows "\<exists>r c d p. r \<in> set (zrows df) \<and> c \<in> set (zillow_date_cols df) \<and>
           value_at r c = Some p \<and> x = zillow_listing md5 (zillow_present df) (r, d, p)"
proof -
  from assms obtain dated where p: "parse_dates td (melt (zillow_date_cols df) (zrows df)) = Inr dated"
    and x: "x \<in> set (map (zillow_listing md5 (zillow_present df)) (dropna_price dated))"
    by (auto simp add: clean_zillow_data_unfold split: if_splits sum.splits)
  from x obtain r d pr where rd: "(r, d, pr) \<in> set (dropna_price dated)"
      "x = zillow_listing md5 (zillow_present df) (r, d, pr)"
    by auto
  from rd(1) have "(r, d, Some pr) \<in> set dated" by (simp add: dropna_price_mem)
  with parse_dates_mem [OF p] obtain c where "(r, c, Some pr) \<in> set (melt (zillow_date_cols df) (zrows df))"
    by blast
  from melt_mem [OF this] have "r \<in> set (zrows df)" "c \<in> set (zillow_date_cols df)"
      "value_at r c = Some pr"
    by simp_all
  with rd(2) show ?thesis by blast
qed

lemma zillow_price_column:
  assumes "rows (clean_zillow_data md5 td df) \<noteq> []"
  shows "has_column (clean_zillow_data md5 td df) ''price''"
proof -
  from assms have c: "columns (clean_zillow_data md5 td df)
      = filter (\<lambda>c. c \<in> set (zillow_clean_columns (zillow_present df))) listing_columns"
    by (simp add: clean_zillow_data_unfold split: if_splits sum.splits)
  have "''price'' \<in> set (zillow_clean_columns (zillow_present df))"
    by (simp add: zillow_clean_columns_def)
  moreover have "''price'' \<in> set listing_columns" by (simp add: listing_columns_def)
  ultimately show ?thesis by (simp add: has_column_def c)
qed

lemma parse_period_end_rows:
  "parse_period_end td rs = Inr dated \<Longrightarrow>
     \<exists>ds. td (map period_end rs) = Inr ds \<and> length ds = length rs \<and> dated = zip rs ds"
  by (auto simp: parse_period_end_def split: sum.splits if_splits)

lemma clean_redfin_data_rows:
  assumes "x \<in> set (rows (clean_redfin_data md5 td df))"
  shows "\<exists>ds. td (map period_end (rrows df)) = Inr ds \<and> length ds = length (rrows df) \<and>
           (\<exists>rd \<in> set (zip (rrows df) ds). x = redfin_listing md5 (rcolumns df) rd)"
proof -
  from assms obtain dated where p: "parse_period_end td (rrows df) = Inr dated"
    and x: "x \<in> set (drop_duplicates [] (map (redfin_listing md5 (rcolumns df)) dated))"
    by (auto simp add: clean_redfin_data_def split: if_splits sum.splits)
  from x set_drop_duplicates have "x \<in> set (map (redfin_listing md5 (rcolumns df)) dated)"
    by blast
  then obtain rd where rd: "rd \<in> set dated" "x = redfin_listing md5 (rcolumns df) rd"
    by auto
  from parse_period_end_rows [OF p] rd show ?thesis by blast
qed

lemma redfin_rows_shape:
  assumes "x \<in> set (rows (clean_redfin_data md5 td df))"
  shows "\<exists>r \<in> set (rrows df). \<exists>d. x = redfin_listing md5 (rcolumns df) (r, d)"
proof -
  from clean_redfin_data_rows [OF assms] obtain ds rd where
    rd: "rd \<in> set (zip (rrows df) ds)" "x = redfin_listing md5 (rcolumns df) rd"
    by blast
  obtain r d where "rd = (r, d)" by (cases rd)
  with rd show ?thesis by (auto dest: set_zip_leftD)
qed

lemma clean_redfin_data_distinct_ids:
  "distinct (map listing_id (rows (clean_redfin_data md5 td df)))"
  by (simp add: clean_redfin_data_def distinct_drop_duplicates split: sum.splits)

lemma select_columns_mem: "c \<in> set (select_columns wanted cols) \<longleftrightarrow> c \<in> set wanted \<and> c \<in> set cols"
  by (auto simp: select_columns_def)

lemma add_column_mem: "c \<in> set (add_column a cols) \<longleftrightarrow> c = a \<or> c \<in> set cols"
  by (auto simp: add_column_def)

lemma fold_add_column_mem: "c \<in> set (fold add_column as cols) \<longleftrightarrow> c \<in> set as \<or> c \<in> set cols"
  by (induction as arbitrary: cols) (auto simp: add_column_mem)

lemma columns_clean_redfin:
  "rows (clean_redfin_data md5 td df) \<noteq> [] \<Longrightarrow>
   columns (clean_redfin_data md5 td df)
      = select_columns listing_columns (redfin_clean_columns (rcolumns df))"
  unfolding clean_redfin_data_def
  apply (simp split: if_splits sum.splits)
  apply blast
  done

lemma price_in_clean:
  assumes m: "''median_sale_price'' \<in> set (rcolumns df)"
  shows "''price'' \<in> set (redfin_clean_columns (rcolumns df))"
proof -
  have r: "redfin_rename ''median_sale_price'' = ''price''" by (simp add: redfin_rename_def)
  have "''median_sale_price'' \<in> set (add_column ''listing_id'' (rcolumns df))"
    using m by (simp add: add_column_mem)
  then have "redfin_rename ''median_sale_price''
      \<in> redfin_rename ` set (add_column ''listing_id'' (rcolumns df))"
    by (rule imageI)
  then have "''price'' \<in> set (map redfin_rename (add_column ''listing_id'' (rcolumns df)))"
    unfolding r by simp
  then show ?thesis
    unfolding redfin_clean_columns_def fold_add_column_mem by (rule disjI2)
qed

lemma redfin_price_column:
  assumes ne: "rows (clean_redfin_data md5 td df) \<noteq> []"
    and m: "''median_sale_price'' \<in> set (rcolumns df)"
  shows "has_column (clean_redfin_data md5 td df) ''price''"
proof -
  have "''price'' \<in> set listing_columns" by (simp add: listing_columns_def)
  then have "''price'' \<in> set (select_columns listing_columns (redfin_clean_columns (rcolumns df)))"
    using price_in_clean [OF m] by (simp only: select_columns_mem simp_thms)
  then show ?thesis
    unfolding has_column_def columns_clean_redfin [OF ne] .
qed

section \<open>Price and identifier of the records that reach the loader\<close>

text \<open>
  C8, as amended. A record that \<^verbatim>\<open>validate_data\<close> outputs from a frame with a price
  column has a price, within \<open>[0, 100_000_000]\<close>; a record that reaches the loader from
  either adapter has an identifier, and a price when the raw frame has the price column.
  Nothing is said of region and period: no step before the loader checks them.
\<close>

theorem validated_records_price_and_identifier:
  "(\<forall>x \<in> set (rows (validate_data df)).
       has_column df ''price'' \<longrightarrow> spec_within 0 100000000 (price x))
   \<and> (\<forall>x \<in> set (rows (validate_data (clean_zillow_data md5 td zdf))).
       listing_id x \<noteq> None \<and> spec_within 0 100000000 (price x))
   \<and> (\<forall>x \<in> set (rows (validate_data (clean_redfin_data md5 td rdf))).
       listing_id x \<noteq> None \<and>
       (''median_sale_price'' \<in> set (rcolumns rdf) \<longrightarrow> spec_within 0 100000000 (price x)))"
proof (intro conjI ballI impI)
  fix x assume "x \<in> set (rows (validate_data df))" "has_column df ''price''"
  then show "spec_within 0 100000000 (price x)"
    using validate_data_rows [of x df] by auto
next
  fix x assume x: "x \<in> set (rows (validate_data (clean_zillow_data md5 td zdf)))"
  let ?out = "clean_zillow_data md5 td zdf"
  from validate_data_rows [OF x] obtain y where y: "y \<in> set (rows ?out)"
    "listing_id x = listing_id y" "price x = price y"
    "if has_column ?out ''price'' then spec_within 0 100000000 (price y) else True"
    by blast
  from y(1) have "rows ?out \<noteq> []" by auto
  then have col: "has_column ?out ''price''" by (rule zillow_price_column)
  from zillow_rows_shape [OF y(1)] have "listing_id y \<noteq> None"
    by (auto simp: zillow_listing_def)
  then show "listing_id x \<noteq> None" using y(2) by simp
  show "spec_within 0 100000000 (price x)" using y(3,4) col by simp
next
  fix x assume x: "x \<in> set (rows (validate_data (clean_redfin_data md5 td rdf)))"
  let ?out = "clean_redfin_data md5 td rdf"
  from validate_data_rows [OF x] obtain y where y: "y \<in> set (rows ?out)"
    "listing_id x = listing_id y" "price x = price y"
    "if has_column ?out ''price'' then spec_within 0 100000000 (price y) else True"
    by blast
  from redfin_rows_shape [OF y(1)] have "listing_id y \<noteq> None"
    by (auto simp: redfin_listing_def)
  then show "listing_id x \<noteq> None" using y(2) by simp
  assume m: "''median_sale_price'' \<in> set (rcolumns rdf)"
  from y(1) have "rows ?out \<noteq> []" by auto
  then have col: "has_column ?out ''price''" using m by (rule redfin_price_column)
  show "spec_within 0 100000000 (price x)" using y(3,4) col by simp
qed

theorem validated_records_price_and_identifier_witness:
  "has_column \<lparr>columns = listing_columns, rows = [sample_listing ''0123'' (Some 250000) (Some 21)]\<rparr> ''price''
   \<and> sample_listing ''0123'' (Some 250000) None
       \<in> set (rows (validate_data
            \<lparr>columns = listing_columns, rows = [sample_listing ''0123'' (Some 250000) (Some 21)]\<rparr>))
   \<and> spec_within 0 100000000 (price (sample_listing ''0123'' (Some 250000) None))"
proof -
  let ?df = "\<lparr>columns = listing_columns, rows = [sample_listing ''0123'' (Some 250000) (Some 21)]\<rparr>"
  have c: "has_column ?df ''price''" by (simp add: has_column_def listing_columns_def)
  have h: "has_checked_columns ?df" by (simp add: has_checked_columns_def has_column_def listing_columns_def)
  have "rows (validate_data ?df) = spec_validate (rows ?df)"
    using h by (rule rows_validate_data_checked)
  also have "\<dots> = [sample_listing ''0123'' (Some 250000) None]"
    by (simp add: spec_validate_def spec_within_def spec_soft_rules_def
        spec_null_outside_def sample_listing_def)
  finally have m: "sample_listing ''0123'' (Some 250000) None \<in> set (rows (validate_data ?df))"
    by simp
  show ?thesis
    using validated_records_price_and_identifier [of ?df] c m by blast
qed

text \<open>
  C8, as stated, fails: the row of the United States in the Zillow file has no
  \<^verbatim>\<open>StateName\<close>, and its records pass the validator with a null region.
\<close>

theorem validated_records_price_and_identifier_counterexample:
  "\<forall>md5. \<exists>x \<in> set (rows (validate_data (clean_zillow_data md5 iso_day_parser united_states))).
      region x = None"
  by (simp add: clean_zillow_data_unfold united_states_def three_months_def zillow_entity_def
      zillow_date_cols_def zillow_id_vars_def melt_def iso_day_parser_def iso_day_def parse_dates_def zillow_listing_def
      zillow_present_def validate_data_def validate_price_def validate_sqft_def
      validate_bedrooms_def validate_bathrooms_def has_column_def listing_columns_def
      zillow_clean_columns_def zillow_rename_def ge_and_le_def price_rule_def lt_or_gt_def)

section \<open>Uniqueness of the identifiers within a batch\<close>

text \<open>
  C7. The Redfin adapter ends with \<^verbatim>\<open>drop_duplicates(subset=['listing_id'])\<close>, so its
  identifiers are pairwise distinct (\<open>clean_redfin_data_distinct_ids\<close>). The Zillow adapter
  has no such step: on a raw frame in which a \<^verbatim>\<open>RegionID\<close> occurs on two rows it emits
  the same identifier twice.
\<close>

theorem clean_zillow_data_duplicate_ids:
  "\<not> distinct (map listing_id (rows (clean_zillow_data md5_hexdigest iso_day_parser duplicate_region)))"
  by (simp add: clean_zillow_data_unfold duplicate_region_def three_months_def miami_def
      zillow_entity_def zillow_date_cols_def zillow_id_vars_def melt_def iso_day_parser_def iso_day_def parse_dates_def
      zillow_listing_def)

section \<open>The reshape from wide to long\<close>





section \<open>Category normalization\<close>





section \<open>Identifier assignment\<close>

lemma md5_empty: "md5_rfc1321 [] = ''d41d8cd98f00b204e9800998ecf8427e''"
  by code_simp

lemma md5_abc: "md5_rfc1321 ''abc'' = ''900150983cd24fb0d6963f7d28e17f72''"
  by code_simp

lemma md5_collision_a:
  "md5_rfc1321 ''zillow_4298268682234136438_2020-01-31 00:00:00'' = ''2e4c860650dbc9335f11cbca67c55f35''"
  by code_simp

lemma md5_collision_b:
  "md5_rfc1321 ''zillow_3815936974142391928_2020-01-31 00:00:00'' = ''2e4c860650dbc93330c2ab01a67c7bcb''"
  by code_simp

lemma md5_394913_jan:
  "take 16 (md5_rfc1321 ''zillow_394913_2020-01-31 00:00:00'') = ''768752e0b70b4852''"
  by code_simp

lemma md5_394914_jan:
  "take 16 (md5_rfc1321 ''zillow_394914_2020-01-31 00:00:00'') = ''e73f5cf2c843c18f''"
  by code_simp

lemma md5_394913_feb:
  "take 16 (md5_rfc1321 ''zillow_394913_2020-02-29 00:00:00'') = ''89c8d3cefa9d19dc''"
  by code_simp

lemma md5_florida:
  "take 16 (md5_rfc1321 ''redfin_Florida_2020-01-31 00:00:00'') = ''abf718f598435d66''"
  by code_simp

lemma zillow_key_inj_key: "zillow_key k d = zillow_key k' d \<Longrightarrow> k = k'"
  by (simp add: zillow_key_def)

lemma zillow_key_inj_period: "zillow_key k d = zillow_key k d' \<Longrightarrow> str_timestamp d = str_timestamp d'"
  by (simp add: zillow_key_def)

lemma redfin_key_inj_key: "redfin_key k d = redfin_key k' d \<Longrightarrow> k = k'"
  by (simp add: redfin_key_def)

lemma redfin_key_inj_period: "redfin_key k d = redfin_key k d' \<Longrightarrow> str_timestamp d = str_timestamp d'"
  by (simp add: redfin_key_def)

lemma source_kind_differs: "zillow_key k d \<noteq> redfin_key k' d'"
  by (simp add: zillow_key_def redfin_key_def)

lemma melt_rel:
  "list_all2 same_zillow_keys rs rs' \<Longrightarrow> list_all2 long_rel (melt cs rs) (melt cs rs')"
proof (induction cs)
  case Nil
  then show ?case by (simp add: melt_def)
next
  case (Cons c cs)
  have "list_all2 long_rel (map (\<lambda>r. (r, c, value_at r c)) rs) (map (\<lambda>r. (r, c, value_at r c)) rs')"
    using Cons.prems
    by (simp add: list_all2_map1 list_all2_map2 long_rel_def same_zillow_keys_def list_all2_mono)
  then show ?case using Cons by (simp add: melt_def list_all2_appendI)
qed

lemma zip_dated_rel:
  "list_all2 long_rel xs ys \<Longrightarrow>
     list_all2 dated_rel (map (\<lambda>(x, d). (fst x, d, snd (snd x))) (zip xs ds))
                         (map (\<lambda>(x, d). (fst x, d, snd (snd x))) (zip ys ds))"
proof (induction xs ys arbitrary: ds rule: list_all2_induct)
  case Nil
  then show ?case by simp
next
  case (Cons x xs y ys)
  show ?case
  proof (cases ds)
    case Nil
    then show ?thesis by simp
  next
    case (Cons d ds')
    obtain r c v where x: "x = (r, c, v)" by (cases x)
    obtain r' c' v' where y: "y = (r', c', v')" by (cases y)
    from Cons.hyps(1) have "dated_rel (r, d, v) (r', d, v')"
      unfolding x y by (simp add: long_rel_def dated_rel_def)
    then show ?thesis using Cons.IH [of ds'] Cons by (simp add: x y)
  qed
qed

lemma long_rel_labels:
  "list_all2 long_rel xs ys \<Longrightarrow>
     map (\<lambda>x. Some (fst (snd x))) xs = map (\<lambda>x. Some (fst (snd x))) ys"
  by (induction xs ys rule: list_all2_induct) (auto simp add: long_rel_def)

lemma parse_dates_rel:
  assumes "list_all2 long_rel xs ys"
  shows "rel_sum (=) (list_all2 dated_rel) (parse_dates td xs) (parse_dates td ys)"
proof -
  have lab: "map (\<lambda>x. Some (fst (snd x))) xs = map (\<lambda>x. Some (fst (snd x))) ys"
    using assms by (rule long_rel_labels)
  have len: "length xs = length ys" using assms by (rule list_all2_lengthD)
  show ?thesis
  proof (cases "td (map (\<lambda>x. Some (fst (snd x))) ys)")
    case (Inl e)
    then show ?thesis by (simp add: parse_dates_def lab)
  next
    case (Inr ds)
    then show ?thesis
      using zip_dated_rel [OF assms, of ds] by (simp add: parse_dates_def lab len)
  qed
qed

lemma dropna_rel:
  "list_all2 dated_rel xs ys \<Longrightarrow> list_all2 priced_rel (dropna_price xs) (dropna_price ys)"
proof (induction xs ys rule: list_all2_induct)
  case Nil
  then show ?case by simp
next
  case (Cons x xs y ys)
  obtain r d v where x: "x = (r, d, v)" by (cases x)
  obtain r' d' v' where y: "y = (r', d', v')" by (cases y)
  show ?case
    using Cons unfolding x y
    by (cases v; cases v') (simp_all add: dated_rel_def priced_rel_def)
qed

lemma ids_priced_rel:
  "list_all2 priced_rel xs ys \<Longrightarrow>
     map listing_id (map (zillow_listing md5 idv) xs) = map listing_id (map (zillow_listing md5 idv') ys)"
  by (induction xs ys rule: list_all2_induct) (auto simp add: priced_rel_def zillow_listing_def)

lemma zillow_ids_depend_on_keys:
  assumes cols: "zcolumns df' = zcolumns df"
      and keys: "list_all2 same_zillow_keys (zrows df) (zrows df')"
  shows "map listing_id (rows (clean_zillow_data md5 td df'))
           = map listing_id (rows (clean_zillow_data md5 td df))"
proof -
  have len: "(zrows df = []) = (zrows df' = [])" using keys by auto
  have dc: "zillow_date_cols df' = zillow_date_cols df" by (simp add: zillow_date_cols_def cols)
  have "list_all2 long_rel (melt (zillow_date_cols df) (zrows df)) (melt (zillow_date_cols df) (zrows df'))"
    using keys by (rule melt_rel)
  then have rs: "rel_sum (=) (list_all2 dated_rel)
       (parse_dates td (melt (zillow_date_cols df) (zrows df)))
       (parse_dates td (melt (zillow_date_cols df) (zrows df')))"
    by (rule parse_dates_rel)
  show ?thesis
  proof (cases "parse_dates td (melt (zillow_date_cols df) (zrows df))")
    case (Inl e)
    with rs obtain e' where "parse_dates td (melt (zillow_date_cols df) (zrows df')) = Inl e'"
      by (auto elim: rel_sum.cases)
    with Inl show ?thesis by (simp add: clean_zillow_data_unfold dc cols)
  next
    case (Inr ys)
    with rs obtain ys' where p': "parse_dates td (melt (zillow_date_cols df) (zrows df')) = Inr ys'"
      and rel: "list_all2 dated_rel ys ys'"
      by (auto elim: rel_sum.cases)
    have pr: "list_all2 priced_rel (dropna_price ys) (dropna_price ys')"
      using rel by (rule dropna_rel)
    then have e: "(dropna_price ys = []) = (dropna_price ys' = [])" by auto
    show ?thesis
      using Inr p' e len ids_priced_rel [OF pr, of md5 "zillow_present df" "zillow_present df'"]
      by (simp add: clean_zillow_data_unfold dc cols)
  qed
qed

lemma redfin_keys_periods:
  "list_all2 same_redfin_keys xs ys \<Longrightarrow> map period_end xs = map period_end ys"
  by (induction xs ys rule: list_all2_induct) (auto simp add: same_redfin_keys_def)

lemma zip_period_rel:
  "list_all2 same_redfin_keys xs ys \<Longrightarrow> list_all2 period_rel (zip xs ds) (zip ys ds)"
proof (induction xs ys arbitrary: ds rule: list_all2_induct)
  case Nil
  then show ?case by simp
next
  case (Cons x xs y ys)
  show ?case
  proof (cases ds)
    case Nil
    then show ?thesis by simp
  next
    case (Cons d ds')
    from Cons.hyps(1) have "period_rel (x, d) (y, d)"
      by (simp add: same_redfin_keys_def period_rel_def)
    then show ?thesis using Cons.IH [of ds'] Cons by simp
  qed
qed

lemma parse_period_end_rel:
  assumes "list_all2 same_redfin_keys xs ys"
  shows "rel_sum (=) (list_all2 period_rel) (parse_period_end td xs) (parse_period_end td ys)"
proof -
  have lab: "map period_end xs = map period_end ys" using assms by (rule redfin_keys_periods)
  have len: "length xs = length ys" using assms by (rule list_all2_lengthD)
  show ?thesis
  proof (cases "td (map period_end ys)")
    case (Inl e)
    then show ?thesis by (simp add: parse_period_end_def lab)
  next
    case (Inr ds)
    then show ?thesis
      using zip_period_rel [OF assms, of ds] by (simp add: parse_period_end_def lab len)
  qed
qed

lemma ids_period_rel:
  "list_all2 period_rel xs ys \<Longrightarrow>
     map listing_id (map (redfin_listing md5 cols) xs) = map listing_id (map (redfin_listing md5 cols) ys)"
  by (induction xs ys rule: list_all2_induct) (auto simp add: period_rel_def redfin_listing_def)

lemma ids_drop_duplicates:
  "map listing_id xs = map listing_id ys \<Longrightarrow>
     map listing_id (drop_duplicates seen xs) = map listing_id (drop_duplicates seen ys)"
proof (induction xs arbitrary: ys seen)
  case Nil
  then show ?case by simp
next
  case (Cons x xs)
  then obtain y ys' where ys: "ys = y # ys'" "listing_id x = listing_id y"
    "map listing_id xs = map listing_id ys'"
    by (cases ys) auto
  show ?case using Cons.IH [OF ys(3)] ys(1,2) by simp
qed

lemma redfin_ids_depend_on_keys:
  assumes cols: "rcolumns df' = rcolumns df"
      and keys: "list_all2 same_redfin_keys (rrows df) (rrows df')"
      and nulls: "''property_type'' \<in> set (rcolumns df) \<longrightarrow>
             list_all (\<lambda>r. redfin_property_type r = None) (rrows df)
               = list_all (\<lambda>r. redfin_property_type r = None) (rrows df')"
  shows "map listing_id (rows (clean_redfin_data md5 td df'))
           = map listing_id (rows (clean_redfin_data md5 td df))"
proof -
  have len: "(rrows df = []) = (rrows df' = [])" using keys by auto
  have rs: "rel_sum (=) (list_all2 period_rel)
       (parse_period_end td (rrows df)) (parse_period_end td (rrows df'))"
    using keys by (rule parse_period_end_rel)
  show ?thesis
  proof (cases "parse_period_end td (rrows df)")
    case (Inl e)
    with rs obtain e' where "parse_period_end td (rrows df') = Inl e'"
      by (auto elim: rel_sum.cases)
    with Inl show ?thesis by (simp add: clean_redfin_data_def cols)
  next
    case (Inr ys)
    with rs obtain ys' where p': "parse_period_end td (rrows df') = Inr ys'"
      and rel: "list_all2 period_rel ys ys'"
      by (auto elim: rel_sum.cases)
    have "map listing_id (drop_duplicates [] (map (redfin_listing md5 (rcolumns df)) ys'))
        = map listing_id (drop_duplicates [] (map (redfin_listing md5 (rcolumns df)) ys))"
      by (rule ids_drop_duplicates) (rule ids_period_rel [OF rel, symmetric])
    then show ?thesis
      using Inr p' len nulls by (auto simp add: clean_redfin_data_def cols)
  qed
qed

lemma zillow_listing_id_link:
  assumes "x \<in> set (rows (clean_zillow_data md5 td df))"
  shows "\<exists>r \<in> set (zrows df).
           listing_id x = Some (take 16 (md5 (zillow_key (RegionID r) (date x))))
         \<and> (\<exists>c \<in> set (zillow_date_cols df). price x = value_at r c \<and> price x \<noteq> None)"
proof -
  from zillow_rows_shape [OF assms] obtain r c d p where
    s: "r \<in> set (zrows df)" "c \<in> set (zillow_date_cols df)" "value_at r c = Some p"
       "x = zillow_listing md5 (zillow_present df) (r, d, p)"
    by blast
  have "listing_id x = Some (take 16 (md5 (zillow_key (RegionID r) (date x))))"
       "price x = value_at r c" "price x \<noteq> None"
    unfolding s(4) by (simp_all add: zillow_listing_def zillow_listing_id_def s(3))
  with s(1,2) show ?thesis by blast
qed

lemma redfin_listing_id_link:
  assumes "x \<in> set (rows (clean_redfin_data md5 td df))"
  shows "\<exists>ds. td (map period_end (rrows df)) = Inr ds \<and>
           (\<exists>(r, d) \<in> set (zip (rrows df) ds). date x = d \<and>
              listing_id x = Some (take 16 (md5 (redfin_key
                 (if ''region'' \<in> set (rcolumns df) then str_text (redfin_region r) else [])
                 (date x)))))"
proof -
  from clean_redfin_data_rows [OF assms] obtain ds rd where
    ds: "td (map period_end (rrows df)) = Inr ds" and
    rd: "rd \<in> set (zip (rrows df) ds)" "x = redfin_listing md5 (rcolumns df) rd"
    by blast
  obtain r d where p: "rd = (r, d)" by (cases rd)
  have "date x = d \<and>
       listing_id x = Some (take 16 (md5 (redfin_key
          (if ''region'' \<in> set (rcolumns df) then str_text (redfin_region r) else [])
          (date x))))"
    unfolding rd(2) p by (simp add: redfin_listing_def redfin_listing_id_def)
  with ds rd(1) p show ?thesis by blast
qed

text \<open>
  C3, as amended. The identifier of a record is the first 16 characters of the digest of
  the text made of the source kind, the natural key of the raw row the record comes from
  and the record's period. So the identifiers an adapter emits are a function of the
  source kind, the natural keys and the periods alone: two raw frames with the same columns
  whose rows agree on the natural key (and on which cells hold a price; for Redfin, on
  whether the \<^verbatim>\<open>property_type\<close> column holds any text) give the same identifiers,
  whatever their prices and other fields. A different natural key, a different period or
  a different source kind gives a different text to hash; with MD5 the identifiers of
  \<^verbatim>\<open>RegionID\<close> 394913 and 394914, and of two months of 394913, differ. They are not
  bound to differ: the 16-character prefixes of two digests can collide.
\<close>

theorem listing_id_depends_on_key_and_period:
  "(\<forall>x \<in> set (rows (clean_zillow_data md5 td zdf)).
      \<exists>r \<in> set (zrows zdf).
         listing_id x = Some (take 16 (md5 (zillow_key (RegionID r) (date x))))
       \<and> (\<exists>c \<in> set (zillow_date_cols zdf). price x = value_at r c \<and> price x \<noteq> None))
   \<and> (\<forall>x \<in> set (rows (clean_redfin_data md5 td rdf)).
      \<exists>ds. td (map period_end (rrows rdf)) = Inr ds \<and>
        (\<exists>(r, d) \<in> set (zip (rrows rdf) ds). date x = d \<and>
           listing_id x = Some (take 16 (md5 (redfin_key
              (if ''region'' \<in> set (rcolumns rdf) then str_text (redfin_region r) else [])
              (date x))))))
   \<and> (zcolumns zdf' = zcolumns zdf \<and> list_all2 same_zillow_keys (zrows zdf) (zrows zdf') \<longrightarrow>
      map listing_id (rows (clean_zillow_data md5 td zdf'))
        = map listing_id (rows (clean_zillow_data md5 td zdf)))
   \<and> (rcolumns rdf' = rcolumns rdf \<and> list_all2 same_redfin_keys (rrows rdf) (rrows rdf')
        \<and> (''property_type'' \<in> set (rcolumns rdf) \<longrightarrow>
             list_all (\<lambda>r. redfin_property_type r = None) (rrows rdf)
               = list_all (\<lambda>r. redfin_property_type r = None) (rrows rdf')) \<longrightarrow>
      map listing_id (rows (clean_redfin_data md5 td rdf'))
        = map listing_id (rows (clean_redfin_data md5 td rdf)))
   \<and> (k \<noteq> k' \<longrightarrow> zillow_key k d \<noteq> zillow_key k' d \<and> redfin_key k d \<noteq> redfin_key k' d)
   \<and> (str_timestamp d \<noteq> str_timestamp d' \<longrightarrow>
        zillow_key k d \<noteq> zillow_key k d' \<and> redfin_key k d \<noteq> redfin_key k d')
   \<and> zillow_key k d \<noteq> redfin_key k' d'
   \<and> zillow_listing_id md5_rfc1321 ''394913'' (Some ''2020-01-31 00:00:00'') = ''768752e0b70b4852''
   \<and> zillow_listing_id md5_rfc1321 ''394914'' (Some ''2020-01-31 00:00:00'') = ''e73f5cf2c843c18f''
   \<and> zillow_listing_id md5_rfc1321 ''394913'' (Some ''2020-02-29 00:00:00'') = ''89c8d3cefa9d19dc''
   \<and> redfin_listing_id md5_rfc1321 ''Florida'' (Some ''2020-01-31 00:00:00'') = ''abf718f598435d66''"
proof (intro conjI ballI impI)
  fix x assume "x \<in> set (rows (clean_zillow_data md5 td zdf))"
  then show "\<exists>r \<in> set (zrows zdf).
         listing_id x = Some (take 16 (md5 (zillow_key (RegionID r) (date x))))
       \<and> (\<exists>c \<in> set (zillow_date_cols zdf). price x = value_at r c \<and> price x \<noteq> None)"
    by (rule zillow_listing_id_link)
next
  fix x assume "x \<in> set (rows (clean_redfin_data md5 td rdf))"
  then show "\<exists>ds. td (map period_end (rrows rdf)) = Inr ds \<and>
        (\<exists>(r, d) \<in> set (zip (rrows rdf) ds). date x = d \<and>
           listing_id x = Some (take 16 (md5 (redfin_key
              (if ''region'' \<in> set (rcolumns rdf) then str_text (redfin_region r) else [])
              (date x)))))"
    by (rule redfin_listing_id_link)
next
  assume "zcolumns zdf' = zcolumns zdf \<and> list_all2 same_zillow_keys (zrows zdf) (zrows zdf')"
  then show "map listing_id (rows (clean_zillow_data md5 td zdf'))
        = map listing_id (rows (clean_zillow_data md5 td zdf))"
    using zillow_ids_depend_on_keys [of zdf' zdf md5 td] by blast
next
  assume "rcolumns rdf' = rcolumns rdf \<and> list_all2 same_redfin_keys (rrows rdf) (rrows rdf')
        \<and> (''property_type'' \<in> set (rcolumns rdf) \<longrightarrow>
             list_all (\<lambda>r. redfin_property_type r = None) (rrows rdf)
               = list_all (\<lambda>r. redfin_property_type r = None) (rrows rdf'))"
  then show "map listing_id (rows (clean_redfin_data md5 td rdf'))
        = map listing_id (rows (clean_redfin_data md5 td rdf))"
    using redfin_ids_depend_on_keys [of rdf' rdf md5 td] by blast
next
  assume "k \<noteq> k'"
  then show "zillow_key k d \<noteq> zillow_key k' d" using zillow_key_inj_key [of k d k'] by blast
next
  assume "k \<noteq> k'"
  then show "redfin_key k d \<noteq> redfin_key k' d" using redfin_key_inj_key [of k d k'] by blast
next
  assume "str_timestamp d \<noteq> str_timestamp d'"
  then show "zillow_key k d \<noteq> zillow_key k d'" using zillow_key_inj_period [of k d d'] by blast
next
  assume "str_timestamp d \<noteq> str_timestamp d'"
  then show "redfin_key k d \<noteq> redfin_key k d'" using redfin_key_inj_period [of k d d'] by blast
next
  show "zillow_key k d \<noteq> redfin_key k' d'" by (rule source_kind_differs)
  show "zillow_listing_id md5_rfc1321 ''394913'' (Some ''2020-01-31 00:00:00'') = ''768752e0b70b4852''"
    using md5_394913_jan by (simp add: zillow_listing_id_def zillow_key_def str_timestamp_def)
  show "zillow_listing_id md5_rfc1321 ''394914'' (Some ''2020-01-31 00:00:00'') = ''e73f5cf2c843c18f''"
    using md5_394914_jan by (simp add: zillow_listing_id_def zillow_key_def str_timestamp_def)
  show "zillow_listing_id md5_rfc1321 ''394913'' (Some ''2020-02-29 00:00:00'') = ''89c8d3cefa9d19dc''"
    using md5_394913_feb by (simp add: zillow_listing_id_def zillow_key_def str_timestamp_def)
  show "redfin_listing_id md5_rfc1321 ''Florida'' (Some ''2020-01-31 00:00:00'') = ''abf718f598435d66''"
    using md5_florida by (simp add: redfin_listing_id_def redfin_key_def str_timestamp_def)
qed

theorem listing_id_depends_on_key_and_period_witness:
  "\<forall>md5.
     zcolumns (three_months [miami 1 2 3]) = zcolumns (three_months [miami 300000 305000 310000])
     \<and> list_all2 same_zillow_keys (zrows (three_months [miami 300000 305000 310000]))
          (zrows (three_months [miami 1 2 3]))
     \<and> map listing_id (rows (clean_zillow_data md5 iso_day_parser (three_months [miami 1 2 3])))
        = map listing_id (rows (clean_zillow_data md5 iso_day_parser
                                 (three_months [miami 300000 305000 310000])))
     \<and> rcolumns all_residential = rcolumns condo_coop
     \<and> list_all2 same_redfin_keys (rrows condo_coop) (rrows all_residential)
     \<and> map listing_id (rows (clean_redfin_data md5 iso_day_parser all_residential))
        = map listing_id (rows (clean_redfin_data md5 iso_day_parser condo_coop))
     \<and> ''394913'' \<noteq> ''394914''
     \<and> zillow_key ''394913'' (Some ''2020-01-31 00:00:00'')
         \<noteq> zillow_key ''394914'' (Some ''2020-01-31 00:00:00'')
     \<and> str_timestamp (Some ''2020-01-31 00:00:00'') \<noteq> str_timestamp (Some ''2020-02-29 00:00:00'')
     \<and> redfin_key ''Florida'' (Some ''2020-01-31 00:00:00'')
         \<noteq> redfin_key ''Florida'' (Some ''2020-02-29 00:00:00'')
     \<and> rows (clean_zillow_data md5 iso_day_parser (three_months [miami 300000 305000 310000])) \<noteq> []
     \<and> listing_id (hd (rows (clean_zillow_data md5 iso_day_parser
                                (three_months [miami 300000 305000 310000]))))
         = Some (take 16 (md5 ''zillow_394913_2020-01-31 00:00:00''))
     \<and> rows (clean_redfin_data md5 iso_day_parser condo_coop) \<noteq> []
     \<and> listing_id (hd (rows (clean_redfin_data md5 iso_day_parser condo_coop)))
         = Some (take 16 (md5 ''redfin_Florida_2020-01-31 00:00:00''))"
proof (intro allI)
  fix md5 :: "string \<Rightarrow> string"
  let ?zdf = "three_months [miami 300000 305000 310000]"
  let ?zdf' = "three_months [miami 1 2 3]"
  let ?zout = "clean_zillow_data md5 iso_day_parser ?zdf"
  let ?rout = "clean_redfin_data md5 iso_day_parser condo_coop"
  let ?jan = "Some ''2020-01-31 00:00:00''"
  let ?feb = "Some ''2020-02-29 00:00:00''"
  note th = listing_id_depends_on_key_and_period
      [where ?md5.0 = md5 and td = iso_day_parser and zdf = ?zdf and zdf' = ?zdf'
         and rdf = condo_coop and rdf' = all_residential
         and k = "''394913''" and k' = "''394914''" and d = ?jan and d' = ?feb]
  have c: "zcolumns ?zdf' = zcolumns ?zdf" by (simp add: three_months_def)
  have k: "list_all2 same_zillow_keys (zrows ?zdf) (zrows ?zdf')"
    by (simp add: three_months_def miami_def zillow_entity_def same_zillow_keys_def)
  have zids: "map listing_id (rows (clean_zillow_data md5 iso_day_parser ?zdf'))
      = map listing_id (rows ?zout)"
    using th c k by blast
  have rc: "rcolumns all_residential = rcolumns condo_coop"
    by (simp add: all_residential_def condo_coop_def)
  have rk: "list_all2 same_redfin_keys (rrows condo_coop) (rrows all_residential)"
    by (simp add: all_residential_def condo_coop_def redfin_entity_def same_redfin_keys_def)
  have rn: "''property_type'' \<in> set (rcolumns condo_coop) \<longrightarrow>
       list_all (\<lambda>r. redfin_property_type r = None) (rrows condo_coop)
         = list_all (\<lambda>r. redfin_property_type r = None) (rrows all_residential)"
    by (simp add: all_residential_def condo_coop_def redfin_entity_def)
  have rids: "map listing_id (rows (clean_redfin_data md5 iso_day_parser all_residential))
      = map listing_id (rows ?rout)"
    using th rc rk rn by blast
  have n: "''394913'' \<noteq> ''394914''" by simp
  have zk: "zillow_key ''394913'' ?jan \<noteq> zillow_key ''394914'' ?jan"
    using th n by blast
  have t: "str_timestamp ?jan \<noteq> str_timestamp ?feb" by (simp add: str_timestamp_def)
  have rkey: "redfin_key ''Florida'' ?jan \<noteq> redfin_key ''Florida'' ?feb"
    using listing_id_depends_on_key_and_period [where d = ?jan and d' = ?feb and k = "''Florida''"] t
    by blast
  have zne: "rows ?zout \<noteq> []" and zdate: "date (hd (rows ?zout)) = ?jan"
    by (simp_all add: clean_zillow_data_unfold three_months_def miami_def zillow_entity_def
        zillow_date_cols_def zillow_id_vars_def melt_def iso_day_parser_def iso_day_def
        parse_dates_def zillow_listing_def)
  from zne have zm: "hd (rows ?zout) \<in> set (rows ?zout)" by simp
  from th [THEN conjunct1, rule_format, OF zm]
  obtain r where r: "r \<in> set (zrows ?zdf)"
      "listing_id (hd (rows ?zout)) = Some (take 16 (md5 (zillow_key (RegionID r) (date (hd (rows ?zout))))))"
    by blast
  from r(1) have "RegionID r = ''394913''"
    by (simp add: three_months_def miami_def zillow_entity_def)
  with r(2) have zid: "listing_id (hd (rows ?zout)) = Some (take 16 (md5 ''zillow_394913_2020-01-31 00:00:00''))"
    by (simp add: zdate zillow_key_def str_timestamp_def)
  have rne: "rows ?rout \<noteq> []" and rdate: "date (hd (rows ?rout)) = ?jan"
    by (simp_all add: clean_redfin_data_def condo_coop_def redfin_columns_def redfin_entity_def
        iso_day_parser_def iso_day_def parse_period_end_def redfin_listing_def)
  from rne have rm: "hd (rows ?rout) \<in> set (rows ?rout)" by simp
  from th [THEN conjunct2, THEN conjunct1, rule_format, OF rm]
  obtain ds where "\<exists>(r, d) \<in> set (zip (rrows condo_coop) ds). date (hd (rows ?rout)) = d \<and>
           listing_id (hd (rows ?rout)) = Some (take 16 (md5 (redfin_key
              (if ''region'' \<in> set (rcolumns condo_coop) then str_text (redfin_region r) else [])
              (date (hd (rows ?rout))))))"
    by (elim exE conjE)
  then obtain p where p0: "p \<in> set (zip (rrows condo_coop) ds)"
      "case p of (r, d) \<Rightarrow> date (hd (rows ?rout)) = d \<and>
           listing_id (hd (rows ?rout)) = Some (take 16 (md5 (redfin_key
              (if ''region'' \<in> set (rcolumns condo_coop) then str_text (redfin_region r) else [])
              (date (hd (rows ?rout))))))"
    by (rule bexE)
  obtain r0 d0 where pr: "p = (r0, d0)" by (cases p)
  from p0(2) have "listing_id (hd (rows ?rout)) = Some (take 16 (md5 (redfin_key
              (if ''region'' \<in> set (rcolumns condo_coop) then str_text (redfin_region r0) else [])
              (date (hd (rows ?rout))))))"
    unfolding pr by (simp only: prod.case)
  then have p: "p \<in> set (zip (rrows condo_coop) ds)"
      "listing_id (hd (rows ?rout)) = Some (take 16 (md5 (redfin_key
              (if ''region'' \<in> set (rcolumns condo_coop) then str_text (redfin_region (fst p)) else [])
              (date (hd (rows ?rout))))))"
    using p0(1) unfolding pr by simp_all
  have "fst p \<in> set (rrows condo_coop)" using p0(1) unfolding pr by (auto dest: set_zip_leftD)
  then have "redfin_region (fst p) = Some ''Florida''"
    by (simp add: condo_coop_def redfin_entity_def)
  moreover have "''region'' \<in> set (rcolumns condo_coop)"
    by (simp add: condo_coop_def redfin_columns_def)
  ultimately have rid: "listing_id (hd (rows ?rout)) = Some (take 16 (md5 ''redfin_Florida_2020-01-31 00:00:00''))"
    using p(2) by (simp add: rdate redfin_key_def str_timestamp_def str_text_def)
  show "zcolumns ?zdf' = zcolumns ?zdf
     \<and> list_all2 same_zillow_keys (zrows ?zdf) (zrows ?zdf')
     \<and> map listing_id (rows (clean_zillow_data md5 iso_day_parser ?zdf')) = map listing_id (rows ?zout)
     \<and> rcolumns all_residential = rcolumns condo_coop
     \<and> list_all2 same_redfin_keys (rrows condo_coop) (rrows all_residential)
     \<and> map listing_id (rows (clean_redfin_data md5 iso_day_parser all_residential))
        = map listing_id (rows ?rout)
     \<and> ''394913'' \<noteq> ''394914''
     \<and> zillow_key ''394913'' ?jan \<noteq> zillow_key ''394914'' ?jan
     \<and> str_timestamp ?jan \<noteq> str_timestamp ?feb
     \<and> redfin_key ''Florida'' ?jan \<noteq> redfin_key ''Florida'' ?feb
     \<and> rows ?zout \<noteq> []
     \<and> listing_id (hd (rows ?zout)) = Some (take 16 (md5 ''zillow_394913_2020-01-31 00:00:00''))
     \<and> rows ?rout \<noteq> []
     \<and> listing_id (hd (rows ?rout)) = Some (take 16 (md5 ''redfin_Florida_2020-01-31 00:00:00''))"
    using c k zids rc rk rids n zk t rkey zne zid rne rid by (intro conjI)
qed

text \<open>
  C3, as stated, fails: a change of the natural key does not always change the
  identifier. The texts \<^verbatim>\<open>zillow_4298268682234136438_2020-01-31 00:00:00\<close> and
  \<^verbatim>\<open>zillow_3815936974142391928_2020-01-31 00:00:00\<close> have MD5 digests that begin with
  the same 16 characters, so the adapter gives the two entities the same identifier for
  January 2020.
\<close>

theorem identifier_collision_counterexample:
  "RegionID collision_a \<noteq> RegionID collision_b
   \<and> map listing_id (rows (clean_zillow_data md5_rfc1321 iso_day_parser (three_months [collision_a])))
       = [Some ''2e4c860650dbc933'']
   \<and> map listing_id (rows (clean_zillow_data md5_rfc1321 iso_day_parser (three_months [collision_b])))
       = [Some ''2e4c860650dbc933'']
   \<and> map date (rows (clean_zillow_data md5_rfc1321 iso_day_parser (three_months [collision_a])))
       = map date (rows (clean_zillow_data md5_rfc1321 iso_day_parser (three_months [collision_b])))"
  by (simp add: clean_zillow_data_unfold three_months_def collision_a_def collision_b_def
      zillow_entity_def zillow_date_cols_def zillow_id_vars_def melt_def iso_day_parser_def
      iso_day_def parse_dates_def zillow_listing_def zillow_listing_id_def zillow_key_def
      str_timestamp_def md5_collision_a md5_collision_b)

end
